theory Spec2Isabelle
  imports Complex_Main "HOL-Library.Sublist"
begin

section \<open>Decoded JSON values and the Python operations applied to them\<close>

text \<open>
  The three HTTP functions \<^verbatim>\<open>save_embeddings\<close>, \<^verbatim>\<open>retrieve_embeddings\<close> and
  \<^verbatim>\<open>delete_embeddings\<close> work on whatever \<^verbatim>\<open>request.get_json(silent=True)\<close> hands them:
  a decoded JSON value, or Python's \<^verbatim>\<open>None\<close> (here \<open>JNull\<close>, which is also what the JSON
  literal \<^verbatim>\<open>null\<close> decodes to). A JSON object is a Python dict: an association list whose
  first binding of a key is the one that counts.
\<close>

datatype json =
    JNull
  | JBool bool
  | JInt int
  | JFloat real
  | JStr string
  | JArr "json list"
  | JObj "(string \<times> json) list"

text \<open>The exceptions that the code paths of the three functions can raise.\<close>

datatype exn =
    TypeError
  | KeyError
  | AttributeError
  | JSONDecodeError
  | StorageError string

text \<open>Python truthiness, as tested by \<^verbatim>\<open>if not request_json\<close> and \<^verbatim>\<open>if document_id\<close>.\<close>

fun truthy :: "json \<Rightarrow> bool" where
  "truthy JNull = False"
| "truthy (JBool b) = b"
| "truthy (JInt i) = (i \<noteq> 0)"
| "truthy (JFloat r) = (r \<noteq> 0)"
| "truthy (JStr s) = (s \<noteq> [])"
| "truthy (JArr xs) = (xs \<noteq> [])"
| "truthy (JObj kvs) = (kvs \<noteq> [])"

text \<open>\<^verbatim>\<open>sub in s\<close> on two Python strings: \<open>sub\<close> occurs in \<open>s\<close> as a contiguous block.\<close>

fun contains_str :: "string \<Rightarrow> string \<Rightarrow> bool" where
  "contains_str sub [] = (sub = [])"
| "contains_str sub (c # cs) = (prefix sub (c # cs) \<or> contains_str sub cs)"

text \<open>
  \<^verbatim>\<open>field in request_json\<close>: key membership on a dict, element membership on a list,
  substring test on a string, \<^verbatim>\<open>TypeError\<close> on anything else.
\<close>

fun py_in :: "string \<Rightarrow> json \<Rightarrow> exn + bool" where
  "py_in k (JObj kvs) = Inr (k \<in> fst ` set kvs)"
| "py_in k (JArr xs) = Inr (JStr k \<in> set xs)"
| "py_in k (JStr s) = Inr (contains_str k s)"
| "py_in k _ = Inl TypeError"

text \<open>\<^verbatim>\<open>request_json[k]\<close> with a string key \<open>k\<close>.\<close>

fun py_getitem :: "json \<Rightarrow> string \<Rightarrow> exn + json" where
  "py_getitem (JObj kvs) k = (case map_of kvs k of None \<Rightarrow> Inl KeyError | Some v \<Rightarrow> Inr v)"
| "py_getitem _ k = Inl TypeError"

text \<open>\<^verbatim>\<open>request_json.get(k)\<close>: only a dict has the method; a missing key gives \<^verbatim>\<open>None\<close>.\<close>

fun py_get :: "json \<Rightarrow> string \<Rightarrow> exn + json" where
  "py_get (JObj kvs) k = Inr (case map_of kvs k of None \<Rightarrow> JNull | Some v \<Rightarrow> v)"
| "py_get _ k = Inl AttributeError"

text \<open>
  \<^verbatim>\<open>all_chunks.extend(chunks)\<close>: a list contributes its elements, a dict its keys, a string
  its characters; any other decoded value is not iterable.
\<close>

fun py_extend :: "json list \<Rightarrow> json \<Rightarrow> exn + json list" where
  "py_extend acc (JArr xs) = Inr (acc @ xs)"
| "py_extend acc (JObj kvs) = Inr (acc @ map (\<lambda>kv. JStr (fst kv)) kvs)"
| "py_extend acc (JStr s) = Inr (acc @ map (\<lambda>c. JStr [c]) s)"
| "py_extend acc _ = Inl TypeError"

text \<open>\<^verbatim>\<open>name.split('/')\<close>: always at least one part, empty parts are kept.\<close>

fun split_on :: "char \<Rightarrow> string \<Rightarrow> string list" where
  "split_on c [] = [[]]"
| "split_on c (x # xs) =
     (if x = c then [] # split_on c xs
      else (case split_on c xs of [] \<Rightarrow> [[x]] | p # ps \<Rightarrow> (x # p) # ps))"

text \<open>The decimal text of a length, as an f-string prints \<^verbatim>\<open>{len(chunks)}\<close>.\<close>

definition digit :: "nat \<Rightarrow> char" where
  "digit d = ''0123456789'' ! d"

function str_nat :: "nat \<Rightarrow> string" where
  "str_nat n = (if n < 10 then [digit n] else str_nat (n div 10) @ [digit (n mod 10)])"
  by pat_completeness auto
termination
  by (relation "measure id") auto

declare str_nat.simps [simp del]

text \<open>
  What the Python runtime and its \<^verbatim>\<open>json\<close> module do is not code of this repository, so
  it is a parameter of the model: \<open>dumps v\<close> is \<^verbatim>\<open>json.dumps(v, indent=2)\<close>, \<open>loads s\<close> is
  \<^verbatim>\<open>json.loads(s)\<close> with \<open>None\<close> for a raised \<^verbatim>\<open>JSONDecodeError\<close>, and \<open>str_of v\<close> is
  the text an f-string gives a decoded value that is not a string.
\<close>

record pyenv =
  dumps :: "json \<Rightarrow> string"
  loads :: "string \<Rightarrow> json option"
  str_of :: "json \<Rightarrow> string"

definition fstr :: "pyenv \<Rightarrow> json \<Rightarrow> string" where
  "fstr env v = (case v of JStr s \<Rightarrow> s | _ \<Rightarrow> str_of env v)"

definition json_loads :: "pyenv \<Rightarrow> string \<Rightarrow> exn + json" where
  "json_loads env s = (case loads env s of None \<Rightarrow> Inl JSONDecodeError | Some v \<Rightarrow> Inr v)"

text \<open>A Python dict keeps insertion order; assigning to a present key keeps its place.\<close>

primrec dict_set :: "'k \<Rightarrow> 'v \<Rightarrow> ('k \<times> 'v) list \<Rightarrow> ('k \<times> 'v) list" where
  "dict_set k v [] = [(k, v)]"
| "dict_set k v (p # ps) = (if fst p = k then (k, v) # ps else p # dict_set k v ps)"

section \<open>The object store\<close>

text \<open>
  The Cloud Storage client is the functions' only collaborator. Its state is the bucket
  \<^verbatim>\<open>myformsnapper-embeddings\<close>, absent or holding named text objects; \<open>faults\<close> says
  which API calls raise, with the message of the exception; \<open>trace\<close> records every API
  call made, in order, whether it succeeded or not. Obtaining a handle
  (\<^verbatim>\<open>storage_client.bucket\<close>, \<^verbatim>\<open>bucket.blob\<close>) is no API call.
\<close>

datatype store_op =
    BucketExists
  | CreateBucket string
  | BlobExists string
  | Upload string string
  | Download string
  | ListBlobs string
  | DeleteBlob string

record gcs =
  bucket :: "(string \<times> string) list option"
  faults :: "store_op \<Rightarrow> string option"
  trace :: "store_op list"

type_synonym 'a io = "gcs \<Rightarrow> (exn + 'a) \<times> gcs"

definition return_io :: "'a \<Rightarrow> 'a io" where
  "return_io x s = (Inr x, s)"

definition then_io :: "'a io \<Rightarrow> ('a \<Rightarrow> 'b io) \<Rightarrow> 'b io" where
  "then_io m f s = (case m s of (Inl e, s') \<Rightarrow> (Inl e, s') | (Inr x, s') \<Rightarrow> f x s')"

definition lift_io :: "exn + 'a \<Rightarrow> 'a io" where
  "lift_io r s = (r, s)"

text \<open>An API call is recorded, then raises if the store is faulty there.\<close>

definition api_call :: "store_op \<Rightarrow> 'a io \<Rightarrow> 'a io" where
  "api_call op m s =
     (let s' = s\<lparr>trace := trace s @ [op]\<rparr>
      in case faults s op of
           Some msg \<Rightarrow> (Inl (StorageError msg), s')
         | None \<Rightarrow> m s')"

definition bucket_exists :: "bool io" where
  "bucket_exists = api_call BucketExists (\<lambda>s. (Inr (bucket s \<noteq> None), s))"

definition create_bucket :: "string \<Rightarrow> unit io" where
  "create_bucket location = api_call (CreateBucket location)
     (\<lambda>s. case bucket s of
            Some objs \<Rightarrow> (Inl (StorageError ''Conflict''), s)
          | None \<Rightarrow> (Inr (), s\<lparr>bucket := Some []\<rparr>))"

definition blob_exists :: "string \<Rightarrow> bool io" where
  "blob_exists name = api_call (BlobExists name)
     (\<lambda>s. case bucket s of
            None \<Rightarrow> (Inr False, s)
          | Some objs \<Rightarrow> (Inr (name \<in> fst ` set objs), s))"

definition upload_from_string :: "string \<Rightarrow> string \<Rightarrow> string \<Rightarrow> unit io" where
  "upload_from_string name content content_type = api_call (Upload name content_type)
     (\<lambda>s. case bucket s of
            None \<Rightarrow> (Inl (StorageError ''NotFound''), s)
          | Some objs \<Rightarrow> (Inr (), s\<lparr>bucket := Some (dict_set name content objs)\<rparr>))"

definition download_as_text :: "string \<Rightarrow> string io" where
  "download_as_text name = api_call (Download name)
     (\<lambda>s. case bucket s of
            None \<Rightarrow> (Inl (StorageError ''NotFound''), s)
          | Some objs \<Rightarrow>
              (case map_of objs name of
                 None \<Rightarrow> (Inl (StorageError ''NotFound''), s)
               | Some content \<Rightarrow> (Inr content, s)))"

definition list_blobs :: "string \<Rightarrow> string list io" where
  "list_blobs pre = api_call (ListBlobs pre)
     (\<lambda>s. case bucket s of
            None \<Rightarrow> (Inl (StorageError ''NotFound''), s)
          | Some objs \<Rightarrow> (Inr (filter (prefix pre) (map fst objs)), s))"

definition delete_blob :: "string \<Rightarrow> unit io" where
  "delete_blob name = api_call (DeleteBlob name)
     (\<lambda>s. case bucket s of
            None \<Rightarrow> (Inl (StorageError ''NotFound''), s)
          | Some objs \<Rightarrow>
              if name \<in> fst ` set objs
              then (Inr (), s\<lparr>bucket := Some (filter (\<lambda>kv. fst kv \<noteq> name) objs)\<rparr>)
              else (Inl (StorageError ''NotFound''), s))"

text \<open>A \<^verbatim>\<open>for\<close> loop over a list whose body may raise: the first exception ends it.\<close>

primrec for_each :: "('a \<Rightarrow> 'b \<Rightarrow> 'b io) \<Rightarrow> 'a list \<Rightarrow> 'b \<Rightarrow> 'b io" where
  "for_each body [] acc = return_io acc"
| "for_each body (x # xs) acc = then_io (body x acc) (for_each body xs)"

section \<open>Requests and responses\<close>

record request =
  "method" :: string
  get_json :: json

text \<open>
  The dict given to \<^verbatim>\<open>jsonify\<close>, one constructor for each shape the functions build;
  \<open>Crashed e\<close> is \<^verbatim>\<open>{'success': False, 'error': str(e)}\<close> of the outer handler.
\<close>

datatype payload =
    NoBody
  | Failure (error: string)
  | Crashed exn
  | Saved (documentId: json) (chunksSaved: nat) (storageUrl: string) (storage: string)
      (saved_message: string)
  | Retrieved (chunks_of: "json list") (metadata_of: "json list") (documentsCount: nat)
      (retrieved_message: string)
  | Deleted (documentsDeleted: nat) (deleted_message: string)

record response =
  body :: payload
  status :: nat
  headers :: "(string \<times> string) list"

definition BUCKET_NAME :: string where
  "BUCKET_NAME = ''myformsnapper-embeddings''"

definition preflight :: response where
  "preflight = \<lparr>body = NoBody, status = 204,
     headers = [(''Access-Control-Allow-Origin'', ''*''),
                (''Access-Control-Allow-Methods'', ''POST''),
                (''Access-Control-Allow-Headers'', ''Content-Type''),
                (''Access-Control-Max-Age'', ''3600'')]\<rparr>"

definition respond :: "payload \<Rightarrow> nat \<Rightarrow> response" where
  "respond b code = \<lparr>body = b, status = code,
     headers = [(''Access-Control-Allow-Origin'', ''*'')]\<rparr>"

text \<open>The outer \<^verbatim>\<open>try ... except Exception\<close> of each function: any exception is a 500.\<close>

definition handle :: "response io \<Rightarrow> gcs \<Rightarrow> response \<times> gcs" where
  "handle m s = (case m s of (Inl e, s') \<Rightarrow> (respond (Crashed e) 500, s') | (Inr r, s') \<Rightarrow> (r, s'))"

section \<open>save-embeddings/main.py\<close>

definition required_fields :: "string list" where
  "required_fields = [''userId'', ''documentId'', ''fileName'', ''chunks'', ''metadata'']"

text \<open>The loop over \<^verbatim>\<open>required_fields\<close>: the first field that is not in the request.\<close>

fun first_missing :: "json \<Rightarrow> string list \<Rightarrow> exn + string option" where
  "first_missing request_json [] = Inr None"
| "first_missing request_json (field # rest) =
     (case py_in field request_json of
        Inl e \<Rightarrow> Inl e
      | Inr False \<Rightarrow> Inr (Some field)
      | Inr True \<Rightarrow> first_missing request_json rest)"

text \<open>
  ``Get or create bucket'': the inner \<^verbatim>\<open>try\<close> with its own handler, which only prints
  and takes a plain handle again.
\<close>

definition get_or_create_bucket :: "unit io" where
  "get_or_create_bucket s =
     (case then_io bucket_exists
             (\<lambda>present. if \<not> present then create_bucket ''us-central1'' else return_io ()) s of
        (Inl e, s') \<Rightarrow> (Inr (), s')
      | (Inr u, s') \<Rightarrow> (Inr (), s'))"

definition blob_path :: "pyenv \<Rightarrow> json \<Rightarrow> json \<Rightarrow> string \<Rightarrow> string" where
  "blob_path env user_id document_id file =
     ''users/'' @ fstr env user_id @ ''/documents/'' @ fstr env document_id @ ''/'' @ file"

definition save_objects :: "pyenv \<Rightarrow> json \<Rightarrow> json \<Rightarrow> json \<Rightarrow> json list \<Rightarrow> json \<Rightarrow> response io" where
  "save_objects env user_id document_id file_name chunks metadata =
     then_io get_or_create_bucket (\<lambda>u.
     let chunks_blob_name = blob_path env user_id document_id ''chunks.json'' in
     then_io (upload_from_string chunks_blob_name (dumps env (JArr chunks)) ''application/json'') (\<lambda>u.
     let metadata_blob_name = blob_path env user_id document_id ''metadata.json'' in
     then_io (upload_from_string metadata_blob_name (dumps env metadata) ''application/json'') (\<lambda>u.
     let storage_url = ''gs://'' @ BUCKET_NAME @ ''/'' @ chunks_blob_name in
     return_io (respond
       (Saved document_id (length chunks) storage_url ''cloud''
          (''Successfully saved '' @ str_nat (length chunks) @ '' chunks for '' @ fstr env file_name))
       200))))"

definition save_try :: "pyenv \<Rightarrow> request \<Rightarrow> response io" where
  "save_try env req =
     (let request_json = get_json req in
      if \<not> truthy request_json
      then return_io (respond (Failure ''No JSON data provided'') 400)
      else
        then_io (lift_io (first_missing request_json required_fields)) (\<lambda>missing.
        case missing of
          Some field \<Rightarrow> return_io (respond (Failure (''Missing required field: '' @ field)) 400)
        | None \<Rightarrow>
            then_io (lift_io (py_getitem request_json ''userId'')) (\<lambda>user_id.
            then_io (lift_io (py_getitem request_json ''documentId'')) (\<lambda>document_id.
            then_io (lift_io (py_getitem request_json ''fileName'')) (\<lambda>file_name.
            then_io (lift_io (py_getitem request_json ''chunks'')) (\<lambda>chunks.
            then_io (lift_io (py_getitem request_json ''metadata'')) (\<lambda>metadata.
            case chunks of
              JArr cs \<Rightarrow>
                if length cs = 0
                then return_io (respond (Failure ''chunks array is empty'') 400)
                else save_objects env user_id document_id file_name cs metadata
            | _ \<Rightarrow> return_io (respond (Failure ''chunks must be an array'') 400))))))))"

definition save_embeddings :: "pyenv \<Rightarrow> request \<Rightarrow> gcs \<Rightarrow> response \<times> gcs" where
  "save_embeddings env req s =
     (if method req = ''OPTIONS'' then (preflight, s) else handle (save_try env req) s)"

section \<open>retrieve-embeddings/main.py\<close>

text \<open>The success response that both branches of the function end in.\<close>

definition retrieved :: "json list \<Rightarrow> json list \<Rightarrow> response" where
  "retrieved all_chunks all_metadata =
     respond
       (Retrieved all_chunks all_metadata (length all_metadata)
          (''Retrieved '' @ str_nat (length all_chunks) @ '' chunks from ''
             @ str_nat (length all_metadata) @ '' documents''))
       200"

text \<open>``Retrieve specific document''.\<close>

definition retrieve_document :: "pyenv \<Rightarrow> json \<Rightarrow> json \<Rightarrow> response io" where
  "retrieve_document env user_id document_id =
     (let chunks_blob_name = blob_path env user_id document_id ''chunks.json'' in
      then_io (blob_exists chunks_blob_name) (\<lambda>present.
      if \<not> present
      then return_io (respond (Failure (''Document '' @ fstr env document_id @ '' not found'')) 404)
      else
        then_io (download_as_text chunks_blob_name) (\<lambda>chunks_data.
        then_io (lift_io (json_loads env chunks_data)) (\<lambda>chunks.
        then_io (lift_io (py_extend [] chunks)) (\<lambda>all_chunks.
        let metadata_blob_name = blob_path env user_id document_id ''metadata.json'' in
        then_io (blob_exists metadata_blob_name) (\<lambda>has_metadata.
        then_io
          (if has_metadata
           then then_io (download_as_text metadata_blob_name) (\<lambda>metadata_data.
                then_io (lift_io (json_loads env metadata_data)) (\<lambda>metadata.
                return_io ([] @ [metadata])))
           else return_io []) (\<lambda>all_metadata.
        return_io (retrieved all_chunks all_metadata))))))))"

text \<open>
  ``Group blobs by document'': \<open>documents\<close> maps a document id to the dict of its files,
  each file type to the name of the listed blob that was assigned to it last.
\<close>

definition add_blob ::
  "string \<Rightarrow> (string \<times> (string \<times> string) list) list \<Rightarrow> (string \<times> (string \<times> string) list) list" where
  "add_blob name documents =
     (let parts = split_on CHR ''/'' name in
      if length parts \<ge> 5
      then
        let doc_id = parts ! 3;
            file_type = parts ! 4;
            files = (case map_of documents doc_id of None \<Rightarrow> [] | Some fs \<Rightarrow> fs)
        in dict_set doc_id (dict_set file_type name files) documents
      else documents)"

primrec group_blobs ::
  "string list \<Rightarrow> (string \<times> (string \<times> string) list) list \<Rightarrow> (string \<times> (string \<times> string) list) list" where
  "group_blobs [] documents = documents"
| "group_blobs (name # names) documents = group_blobs names (add_blob name documents)"

text \<open>The body of the loop over \<^verbatim>\<open>documents.items()\<close>.\<close>

definition collect_document ::
  "pyenv \<Rightarrow> string \<times> (string \<times> string) list \<Rightarrow> json list \<times> json list \<Rightarrow> (json list \<times> json list) io" where
  "collect_document env doc acc =
     (let files = snd doc; all_chunks = fst acc; all_metadata = snd acc in
      then_io
        (case map_of files ''chunks.json'' of
           None \<Rightarrow> return_io all_chunks
         | Some blob \<Rightarrow>
             then_io (download_as_text blob) (\<lambda>chunks_data.
             then_io (lift_io (json_loads env chunks_data)) (\<lambda>chunks.
             lift_io (py_extend all_chunks chunks)))) (\<lambda>all_chunks'.
      then_io
        (case map_of files ''metadata.json'' of
           None \<Rightarrow> return_io all_metadata
         | Some blob \<Rightarrow>
             then_io (download_as_text blob) (\<lambda>metadata_data.
             then_io (lift_io (json_loads env metadata_data)) (\<lambda>metadata.
             return_io (all_metadata @ [metadata])))) (\<lambda>all_metadata'.
      return_io (all_chunks', all_metadata'))))"

text \<open>``Retrieve all documents for user''.\<close>

definition retrieve_all :: "pyenv \<Rightarrow> json \<Rightarrow> response io" where
  "retrieve_all env user_id =
     (let pre = ''users/'' @ fstr env user_id @ ''/documents/'' in
      then_io (list_blobs pre) (\<lambda>blobs.
      let documents = group_blobs blobs [] in
      then_io (for_each (collect_document env) documents ([], [])) (\<lambda>acc.
      return_io (retrieved (fst acc) (snd acc)))))"

definition retrieve_try :: "pyenv \<Rightarrow> request \<Rightarrow> response io" where
  "retrieve_try env req =
     (let request_json = get_json req in
      if \<not> truthy request_json
      then return_io (respond (Failure ''No JSON data provided'') 400)
      else
        then_io (lift_io (py_in ''userId'' request_json)) (\<lambda>has_user.
        if \<not> has_user
        then return_io (respond (Failure ''Missing required field: userId'') 400)
        else
          then_io (lift_io (py_getitem request_json ''userId'')) (\<lambda>user_id.
          then_io (lift_io (py_get request_json ''documentId'')) (\<lambda>document_id.
          then_io bucket_exists (\<lambda>present.
          if \<not> present
          then return_io (respond (Retrieved [] [] 0 ''No documents found'') 200)
          else if truthy document_id
          then retrieve_document env user_id document_id
          else retrieve_all env user_id)))))"

definition retrieve_embeddings :: "pyenv \<Rightarrow> request \<Rightarrow> gcs \<Rightarrow> response \<times> gcs" where
  "retrieve_embeddings env req s =
     (if method req = ''OPTIONS'' then (preflight, s) else handle (retrieve_try env req) s)"

section \<open>delete-embeddings/main.py\<close>

text \<open>A Python set of strings, as the list of its members in the order they were added.\<close>

definition set_add :: "'a \<Rightarrow> 'a list \<Rightarrow> 'a list" where
  "set_add x xs = (if x \<in> set xs then xs else xs @ [x])"

text \<open>``Group by document'': the set of document ids seen in the listing.\<close>

primrec document_ids :: "string list \<Rightarrow> string list \<Rightarrow> string list" where
  "document_ids [] documents = documents"
| "document_ids (name # names) documents =
     document_ids names
       (let parts = split_on CHR ''/'' name in
        if length parts \<ge> 5 then set_add (parts ! 3) documents else documents)"

text \<open>The loop \<^verbatim>\<open>for blob in blobs: blob.delete()\<close>.\<close>

definition delete_blobs :: "string list \<Rightarrow> unit io" where
  "delete_blobs blobs = for_each (\<lambda>blob u. delete_blob blob) blobs ()"

text \<open>``Delete specific document''.\<close>

definition delete_document :: "pyenv \<Rightarrow> json \<Rightarrow> json \<Rightarrow> response io" where
  "delete_document env user_id document_id =
     (let pre = blob_path env user_id document_id [] in
      then_io (list_blobs pre) (\<lambda>blobs.
      if blobs = []
      then return_io (respond (Failure (''Document '' @ fstr env document_id @ '' not found'')) 404)
      else
        then_io (delete_blobs blobs) (\<lambda>u.
        let deleted_count = 1;
            message = ''Successfully deleted document '' @ fstr env document_id
        in return_io (respond (Deleted deleted_count message) 200))))"

text \<open>``Delete all documents for user''.\<close>

definition delete_all :: "pyenv \<Rightarrow> json \<Rightarrow> response io" where
  "delete_all env user_id =
     (let pre = ''users/'' @ fstr env user_id @ ''/documents/'' in
      then_io (list_blobs pre) (\<lambda>blobs.
      let documents = document_ids blobs [] in
      then_io (delete_blobs blobs) (\<lambda>u.
      let deleted_count = length documents;
          message = ''Successfully deleted '' @ str_nat deleted_count
                      @ '' documents for user '' @ fstr env user_id
      in return_io (respond (Deleted deleted_count message) 200))))"

definition delete_try :: "pyenv \<Rightarrow> request \<Rightarrow> response io" where
  "delete_try env req =
     (let request_json = get_json req in
      if \<not> truthy request_json
      then return_io (respond (Failure ''No JSON data provided'') 400)
      else
        then_io (lift_io (py_in ''userId'' request_json)) (\<lambda>has_user.
        if \<not> has_user
        then return_io (respond (Failure ''Missing required field: userId'') 400)
        else
          then_io (lift_io (py_getitem request_json ''userId'')) (\<lambda>user_id.
          then_io (lift_io (py_get request_json ''documentId'')) (\<lambda>document_id.
          then_io bucket_exists (\<lambda>present.
          if \<not> present
          then return_io (respond (Deleted 0 ''No documents to delete'') 200)
          else if truthy document_id
          then delete_document env user_id document_id
          else delete_all env user_id)))))"

definition delete_embeddings :: "pyenv \<Rightarrow> request \<Rightarrow> gcs \<Rightarrow> response \<times> gcs" where
  "delete_embeddings env req s =
     (if method req = ''OPTIONS'' then (preflight, s) else handle (delete_try env req) s)"

section \<open>Sample data\<close>

text \<open>
  One chunk list and one metadata record, with the texts \<^verbatim>\<open>json.dumps(_, indent=2)\<close>
  prints for them. \<open>sample_env\<close> is the Python runtime on these values only: other
  arguments do not occur in the examples.
\<close>

definition chunks1 :: "json list" where
  "chunks1 = [JObj [(''chunkIndex'', JInt 0)]]"

definition metadata1 :: json where
  "metadata1 = JObj [(''chunksProcessed'', JInt 1)]"

definition chunks1_text :: string where
  "chunks1_text = ''['' @ [CHR 0x0A] @ ''  {'' @ [CHR 0x0A] @ ''    '' @ [CHR 0x22] @ ''chunkIndex''
      @ [CHR 0x22] @ '': 0'' @ [CHR 0x0A] @ ''  }'' @ [CHR 0x0A] @ '']''"

definition metadata1_text :: string where
  "metadata1_text = ''{'' @ [CHR 0x0A] @ ''  '' @ [CHR 0x22] @ ''chunksProcessed''
      @ [CHR 0x22] @ '': 1'' @ [CHR 0x0A] @ ''}''"

definition sample_env :: pyenv where
  "sample_env = \<lparr>
     dumps = (\<lambda>v. if v = JArr chunks1 then chunks1_text
                  else if v = metadata1 then metadata1_text
                  else if v = JObj [] then ''{}'' else []),
     loads = (\<lambda>t. if t = chunks1_text then Some (JArr chunks1)
                  else if t = metadata1_text then Some metadata1
                  else if t = ''{}'' then Some (JObj []) else None),
     str_of = (\<lambda>v. case v of JNull \<Rightarrow> ''None'' | JBool b \<Rightarrow> (if b then ''True'' else ''False'')
                  | JInt i \<Rightarrow> (if i < 0 then ''-'' else []) @ str_nat (nat \<bar>i\<bar>) | _ \<Rightarrow> [])\<rparr>"

definition empty_store :: gcs where
  "empty_store = \<lparr>bucket = None, faults = (\<lambda>op. None), trace = []\<rparr>"

definition save_request :: "string \<Rightarrow> string \<Rightarrow> json \<Rightarrow> json \<Rightarrow> request" where
  "save_request u d cs m = \<lparr>method = ''POST'', get_json = JObj
     [(''userId'', JStr u), (''documentId'', JStr d), (''fileName'', JStr ''a.pdf''),
      (''chunks'', cs), (''metadata'', m)]\<rparr>"

definition forbidden_store :: gcs where
  "forbidden_store = \<lparr>bucket = Some [],
     faults = (\<lambda>op. if op = BucketExists then Some ''Forbidden'' else None), trace = []\<rparr>"

definition retrieve_request :: "string \<Rightarrow> string \<Rightarrow> request" where
  "retrieve_request u d = \<lparr>method = ''POST'', get_json = JObj
     [(''userId'', JStr u), (''documentId'', JStr d)]\<rparr>"

definition chunks_only_store :: gcs where
  "chunks_only_store = \<lparr>bucket = Some [(''users/u/documents/d/chunks.json'', chunks1_text)],
     faults = (\<lambda>op. None), trace = []\<rparr>"

definition one_doc_store :: gcs where
  "one_doc_store = \<lparr>bucket = Some [(''users/u/documents/d/chunks.json'', chunks1_text),
       (''users/u/documents/d/metadata.json'', metadata1_text)],
     faults = (\<lambda>op. None), trace = []\<rparr>"

definition stray_store :: gcs where
  "stray_store = \<lparr>bucket = Some [(''users/u/documents/x'', chunks1_text),
       (''users/u/documents/d/chunks.json'', chunks1_text)],
     faults = (\<lambda>op. None), trace = []\<rparr>"

definition delete_request :: "string \<Rightarrow> json \<Rightarrow> request" where
  "delete_request u d = \<lparr>method = ''POST'', get_json = JObj
     [(''userId'', JStr u), (''documentId'', d)]\<rparr>"

definition two_doc_store :: gcs where
  "two_doc_store = \<lparr>bucket = Some [(''users/u/documents/d/chunks.json'', chunks1_text),
       (''users/u/documents/d/metadata.json'', metadata1_text),
       (''users/u/documents/e/chunks.json'', chunks1_text),
       (''users/v/documents/d/chunks.json'', chunks1_text)],
     faults = (\<lambda>op. None), trace = []\<rparr>"

definition no_create_store :: gcs where
  "no_create_store = \<lparr>bucket = None,
     faults = (\<lambda>op. if op = CreateBucket ''us-central1'' then Some ''Forbidden'' else None),
     trace = []\<rparr>"

section \<open>The grouping of a listing, in the words of the specification\<close>












section \<open>Lemmas\<close>

lemma then_io_lift_Inr: "then_io (lift_io (Inr x)) f = f x"
  by (rule ext) (simp add: then_io_def lift_io_def)

lemma handle_return: "handle (return_io r) s = (r, s)"
  by (simp add: handle_def return_io_def)

lemma first_missing_obj:
  "first_missing (JObj kvs) fs = Inr (find (\<lambda>f. f \<notin> fst ` set kvs) fs)"
  by (induction fs) auto

lemma map_of_in_keys: "map_of kvs k = Some v \<Longrightarrow> k \<in> fst ` set kvs"
  by (metis domI dom_map_of_conv_image_fst)

lemma in_keys_map_of: "k \<in> fst ` set kvs \<Longrightarrow> \<exists>v. map_of kvs k = Some v"
  by (metis domD dom_map_of_conv_image_fst)

lemma save_try_fields:
  assumes "get_json req = JObj kvs"
    and "map_of kvs ''userId'' = Some user_id"
    and "map_of kvs ''documentId'' = Some document_id"
    and "map_of kvs ''fileName'' = Some file_name"
    and "map_of kvs ''chunks'' = Some chunks"
    and "map_of kvs ''metadata'' = Some metadata"
  shows "save_try env req =
     (case chunks of
        JArr cs \<Rightarrow>
          if length cs = 0
          then return_io (respond (Failure ''chunks array is empty'') 400)
          else save_objects env user_id document_id file_name cs metadata
      | _ \<Rightarrow> return_io (respond (Failure ''chunks must be an array'') 400))"
proof -
  have ne: "kvs \<noteq> []" using assms(2) by auto
  have "find (\<lambda>f. f \<notin> fst ` set kvs) required_fields = None"
    using assms(2-6) by (simp add: required_fields_def map_of_in_keys)
  then show ?thesis
    using assms ne
    by (simp add: save_try_def first_missing_obj then_io_lift_Inr)
qed

lemma save_try_missing:
  assumes "get_json req = JObj kvs" and "kvs \<noteq> []"
    and "find (\<lambda>f. f \<notin> fst ` set kvs) required_fields = Some field"
  shows "save_try env req = return_io (respond (Failure (''Missing required field: '' @ field)) 400)"
  using assms by (simp add: save_try_def first_missing_obj then_io_lift_Inr)

lemma all_present:
  assumes "find (\<lambda>f. f \<notin> fst ` set kvs) required_fields = None"
  shows "\<exists>u d f c m. map_of kvs ''userId'' = Some u \<and> map_of kvs ''documentId'' = Some d
     \<and> map_of kvs ''fileName'' = Some f \<and> map_of kvs ''chunks'' = Some c
     \<and> map_of kvs ''metadata'' = Some m"
proof -
  have "\<forall>f \<in> set required_fields. f \<in> fst ` set kvs"
    using assms by (simp add: find_None_iff)
  then show ?thesis
    by (simp add: required_fields_def in_keys_map_of)
qed

lemma get_or_create_bucket_eq:
  "get_or_create_bucket s =
     (Inr (),
      s\<lparr>bucket :=
           (if bucket s = None \<and> faults s BucketExists = None
                \<and> faults s (CreateBucket ''us-central1'') = None
            then Some [] else bucket s),
        trace := trace s @ BucketExists #
           (if bucket s = None \<and> faults s BucketExists = None
            then [CreateBucket ''us-central1''] else [])\<rparr>)"
  by (cases "faults s BucketExists"; cases "bucket s"; cases "faults s (CreateBucket ''us-central1'')")
     (simp_all add: get_or_create_bucket_def then_io_def api_call_def bucket_exists_def
        create_bucket_def return_io_def)

lemma upload_eq:
  "upload_from_string n c t s =
     (if faults s (Upload n t) = None \<and> bucket s \<noteq> None
      then (Inr (), s\<lparr>bucket := Some (dict_set n c (the (bucket s))), trace := trace s @ [Upload n t]\<rparr>)
      else (Inl (StorageError (case faults s (Upload n t) of Some msg \<Rightarrow> msg | None \<Rightarrow> ''NotFound'')),
            s\<lparr>trace := trace s @ [Upload n t]\<rparr>))"
  by (cases "faults s (Upload n t)"; cases "bucket s")
     (simp_all add: upload_from_string_def api_call_def)

lemma save_objects_ok:
  assumes "faults s (Upload (blob_path env u d ''chunks.json'') ''application/json'') = None"
    and "faults s (Upload (blob_path env u d ''metadata.json'') ''application/json'') = None"
    and "bucket (snd (get_or_create_bucket s)) \<noteq> None"
  shows "handle (save_objects env u d f cs m) s =
           (respond (Saved d (length cs)
              (''gs://myformsnapper-embeddings/'' @ blob_path env u d ''chunks.json'') ''cloud''
              (''Successfully saved '' @ str_nat (length cs) @ '' chunks for '' @ fstr env f)) 200,
            (snd (get_or_create_bucket s))
              \<lparr>bucket := Some (dict_set (blob_path env u d ''metadata.json'') (dumps env m)
                  (dict_set (blob_path env u d ''chunks.json'') (dumps env (JArr cs))
                     (the (bucket (snd (get_or_create_bucket s)))))),
               trace := trace (snd (get_or_create_bucket s)) @
                  [Upload (blob_path env u d ''chunks.json'') ''application/json'',
                   Upload (blob_path env u d ''metadata.json'') ''application/json'']\<rparr>)"
  using assms unfolding save_objects_def
  by (cases "faults s BucketExists"; cases "bucket s";
      cases "faults s (CreateBucket ''us-central1'')";
      cases "faults s (Upload (blob_path env u d ''chunks.json'') ''application/json'')";
      cases "faults s (Upload (blob_path env u d ''metadata.json'') ''application/json'')")
     (simp_all add: get_or_create_bucket_eq upload_eq then_io_def handle_def return_io_def
        Let_def BUCKET_NAME_def respond_def)

lemma save_objects_failed:
  assumes "\<not> (faults s (Upload (blob_path env u d ''chunks.json'') ''application/json'') = None
    \<and> faults s (Upload (blob_path env u d ''metadata.json'') ''application/json'') = None
    \<and> bucket (snd (get_or_create_bucket s)) \<noteq> None)"
  shows "\<exists>msg. fst (handle (save_objects env u d f cs m) s) = respond (Crashed (StorageError msg)) 500
     \<and> (faults s (Upload (blob_path env u d ''chunks.json'') ''application/json'') = Some msg
        \<or> faults s (Upload (blob_path env u d ''metadata.json'') ''application/json'') = Some msg
        \<or> bucket (snd (get_or_create_bucket s)) = None \<and> msg = ''NotFound'')"
  using assms unfolding save_objects_def
  by (cases "faults s BucketExists"; cases "bucket s";
      cases "faults s (CreateBucket ''us-central1'')";
      cases "faults s (Upload (blob_path env u d ''chunks.json'') ''application/json'')";
      cases "faults s (Upload (blob_path env u d ''metadata.json'') ''application/json'')")
     (simp_all add: get_or_create_bucket_eq upload_eq then_io_def handle_def return_io_def
        Let_def BUCKET_NAME_def respond_def)


lemma map_of_dict_set: "map_of (dict_set k v al) = (map_of al)(k \<mapsto> v)"
  by (induction al) (auto simp add: fun_eq_iff)

lemma blob_path_str:
  "blob_path env (JStr u) (JStr d) file = ''users/'' @ u @ ''/documents/'' @ d @ ''/'' @ file"
  by (simp add: blob_path_def fstr_def)

lemma save_embeddings_fields:
  assumes "method req \<noteq> ''OPTIONS''" and "get_json req = JObj kvs"
    and "map_of kvs ''userId'' = Some user_id"
    and "map_of kvs ''documentId'' = Some document_id"
    and "map_of kvs ''fileName'' = Some file_name"
    and "map_of kvs ''chunks'' = Some (JArr cs)"
    and "map_of kvs ''metadata'' = Some metadata"
    and "cs \<noteq> []"
  shows "save_embeddings env req s = handle (save_objects env user_id document_id file_name cs metadata) s"
  using assms by (simp add: save_embeddings_def save_try_fields)

lemma bucket_after_get_or_create:
  "bucket (snd (get_or_create_bucket s)) =
     (if bucket s = None \<and> faults s BucketExists = None
         \<and> faults s (CreateBucket ''us-central1'') = None
      then Some [] else bucket s)"
  and trace_after_get_or_create:
  "trace (snd (get_or_create_bucket s)) = trace s @ BucketExists #
     (if bucket s = None \<and> faults s BucketExists = None
      then [CreateBucket ''us-central1''] else [])"
  and faults_after_get_or_create:
  "faults (snd (get_or_create_bucket s)) = faults s"
  by (simp_all add: get_or_create_bucket_eq)

lemma sample_dumps:
  "dumps sample_env (JArr chunks1) = chunks1_text"
  "dumps sample_env metadata1 = metadata1_text"
  by (simp_all add: sample_env_def metadata1_def)

lemma sample_loads:
  "loads sample_env chunks1_text = Some (JArr chunks1)"
  "loads sample_env metadata1_text = Some metadata1"
  by (simp_all add: sample_env_def metadata1_text_def chunks1_text_def)

lemma sample_save_ok:
  "status (fst (save_embeddings sample_env (save_request ''u'' ''d'' (JArr chunks1) metadata1)
      empty_store)) = 200"
  by (simp add: save_embeddings_def save_try_def save_request_def empty_store_def
      required_fields_def save_objects_def get_or_create_bucket_eq upload_eq then_io_def
      lift_io_def return_io_def handle_def respond_def Let_def chunks1_def)

lemma retrieve_try_fields:
  assumes "get_json req = JObj kvs" and "map_of kvs ''userId'' = Some user_id"
  shows "retrieve_try env req =
     then_io bucket_exists (\<lambda>present.
       if \<not> present
       then return_io (respond (Retrieved [] [] 0 ''No documents found'') 200)
       else if truthy (case map_of kvs ''documentId'' of None \<Rightarrow> JNull | Some v \<Rightarrow> v)
       then retrieve_document env user_id (case map_of kvs ''documentId'' of None \<Rightarrow> JNull | Some v \<Rightarrow> v)
       else retrieve_all env user_id)"
proof -
  have "kvs \<noteq> []" using assms(2) by auto
  then show ?thesis
    using assms by (simp add: retrieve_try_def then_io_lift_Inr map_of_in_keys)
qed

lemma bucket_exists_healthy:
  "faults s = (\<lambda>op. None) \<Longrightarrow>
     bucket_exists s = (Inr (bucket s \<noteq> None), s\<lparr>trace := trace s @ [BucketExists]\<rparr>)"
  by (simp add: bucket_exists_def api_call_def)

lemma blob_exists_healthy:
  "faults s = (\<lambda>op. None) \<Longrightarrow> bucket s = Some objs \<Longrightarrow>
     blob_exists n s = (Inr (map_of objs n \<noteq> None), s\<lparr>trace := trace s @ [BlobExists n]\<rparr>)"
  by (simp add: blob_exists_def api_call_def map_of_eq_None_iff)

lemma download_healthy:
  "faults s = (\<lambda>op. None) \<Longrightarrow> bucket s = Some objs \<Longrightarrow> map_of objs n = Some text \<Longrightarrow>
     download_as_text n s = (Inr text, s\<lparr>trace := trace s @ [Download n]\<rparr>)"
  by (simp add: download_as_text_def api_call_def)

lemma retrieve_document_missing:
  assumes "faults s = (\<lambda>op. None)" and "bucket s = Some objs"
    and "map_of objs (blob_path env u d ''chunks.json'') = None"
  shows "fst (retrieve_document env u d s) =
     Inr (respond (Failure (''Document '' @ fstr env d @ '' not found'')) 404)"
  using assms
  by (simp add: retrieve_document_def then_io_def blob_exists_healthy return_io_def Let_def)

lemma retrieve_document_found:
  assumes "faults s = (\<lambda>op. None)" and "bucket s = Some objs"
    and "map_of objs (blob_path env u d ''chunks.json'') = Some text"
    and "loads env text = Some v" and "py_extend [] v = Inr items"
  shows "fst (retrieve_document env u d s) =
     (case map_of objs (blob_path env u d ''metadata.json'') of
        None \<Rightarrow> Inr (retrieved items [])
      | Some mtext \<Rightarrow>
          (case loads env mtext of
             None \<Rightarrow> Inl JSONDecodeError
           | Some mv \<Rightarrow> Inr (retrieved items [mv])))"
  using assms
  by (cases "map_of objs (blob_path env u d ''metadata.json'')";
      cases "loads env (the (map_of objs (blob_path env u d ''metadata.json'')))")
     (simp_all add: retrieve_document_def then_io_def blob_exists_healthy download_healthy
        return_io_def lift_io_def json_loads_def Let_def)

lemma retrieve_embeddings_document:
  assumes "method req \<noteq> ''OPTIONS''" and "get_json req = JObj kvs"
    and "map_of kvs ''userId'' = Some user_id"
    and "map_of kvs ''documentId'' = Some document_id" and "truthy document_id"
    and "faults s = (\<lambda>op. None)" and "bucket s = Some objs"
  shows "fst (retrieve_embeddings env req s) =
     (case fst (retrieve_document env user_id document_id (s\<lparr>trace := trace s @ [BucketExists]\<rparr>)) of
        Inl e \<Rightarrow> respond (Crashed e) 500 | Inr r \<Rightarrow> r)"
  using assms
  by (simp add: retrieve_embeddings_def retrieve_try_fields handle_def then_io_def
      bucket_exists_healthy split: prod.splits sum.splits)

lemma retrieve_embeddings_no_bucket:
  assumes "method req \<noteq> ''OPTIONS''" and "get_json req = JObj kvs"
    and "map_of kvs ''userId'' = Some user_id"
    and "faults s = (\<lambda>op. None)" and "bucket s = None"
  shows "fst (retrieve_embeddings env req s) = respond (Retrieved [] [] 0 ''No documents found'') 200"
  using assms
  by (simp add: retrieve_embeddings_def retrieve_try_fields handle_def then_io_def
      bucket_exists_healthy return_io_def)

lemma str_nat_small:
  "str_nat 0 = ''0''" "str_nat 1 = ''1''" "str_nat (Suc 0) = ''1''" "str_nat 2 = ''2''"
  by (simp_all add: str_nat.simps digit_def)


lemma save_objects_healthy:
  assumes "faults s = (\<lambda>op. None)"
  shows "fst (handle (save_objects env u d f cs m) s) =
           respond (Saved d (length cs)
              (''gs://myformsnapper-embeddings/'' @ blob_path env u d ''chunks.json'') ''cloud''
              (''Successfully saved '' @ str_nat (length cs) @ '' chunks for '' @ fstr env f)) 200"
    and "bucket (snd (handle (save_objects env u d f cs m) s)) =
           Some (dict_set (blob_path env u d ''metadata.json'') (dumps env m)
                  (dict_set (blob_path env u d ''chunks.json'') (dumps env (JArr cs))
                     (case bucket s of None \<Rightarrow> [] | Some objs \<Rightarrow> objs)))"
    and "faults (snd (handle (save_objects env u d f cs m) s)) = (\<lambda>op. None)"
proof -
  have ok: "faults s (Upload (blob_path env u d ''chunks.json'') ''application/json'') = None"
    "faults s (Upload (blob_path env u d ''metadata.json'') ''application/json'') = None"
    "bucket (snd (get_or_create_bucket s)) \<noteq> None"
    using assms by (simp_all add: bucket_after_get_or_create)
  have objs: "the (bucket (snd (get_or_create_bucket s))) =
      (case bucket s of None \<Rightarrow> [] | Some objs \<Rightarrow> objs)"
    using assms by (cases "bucket s") (simp_all add: bucket_after_get_or_create)
  note res = save_objects_ok [OF ok, of f cs m]
  show "fst (handle (save_objects env u d f cs m) s) =
           respond (Saved d (length cs)
              (''gs://myformsnapper-embeddings/'' @ blob_path env u d ''chunks.json'') ''cloud''
              (''Successfully saved '' @ str_nat (length cs) @ '' chunks for '' @ fstr env f)) 200"
    by (simp add: res)
  show "bucket (snd (handle (save_objects env u d f cs m) s)) =
           Some (dict_set (blob_path env u d ''metadata.json'') (dumps env m)
                  (dict_set (blob_path env u d ''chunks.json'') (dumps env (JArr cs))
                     (case bucket s of None \<Rightarrow> [] | Some objs \<Rightarrow> objs)))"
    by (simp add: res objs)
  show "faults (snd (handle (save_objects env u d f cs m) s)) = (\<lambda>op. None)"
    using assms by (simp add: res faults_after_get_or_create)
qed

lemma delete_try_fields:
  assumes "get_json req = JObj kvs" and "map_of kvs ''userId'' = Some user_id"
  shows "delete_try env req =
     then_io bucket_exists (\<lambda>present.
       if \<not> present
       then return_io (respond (Deleted 0 ''No documents to delete'') 200)
       else if truthy (case map_of kvs ''documentId'' of None \<Rightarrow> JNull | Some v \<Rightarrow> v)
       then delete_document env user_id (case map_of kvs ''documentId'' of None \<Rightarrow> JNull | Some v \<Rightarrow> v)
       else delete_all env user_id)"
proof -
  have "kvs \<noteq> []" using assms(2) by auto
  then show ?thesis
    using assms by (simp add: delete_try_def then_io_lift_Inr map_of_in_keys)
qed

lemma list_blobs_healthy:
  "faults s = (\<lambda>op. None) \<Longrightarrow> bucket s = Some objs \<Longrightarrow>
     list_blobs pre s =
       (Inr (filter (prefix pre) (map fst objs)), s\<lparr>trace := trace s @ [ListBlobs pre]\<rparr>)"
  by (simp add: list_blobs_def api_call_def)

lemma delete_blobs_healthy:
  assumes "faults s = (\<lambda>op. None)" and "bucket s = Some objs"
    and "distinct names" and "set names \<subseteq> fst ` set objs"
  shows "delete_blobs names s =
     (Inr (), s\<lparr>bucket := Some (filter (\<lambda>kv. fst kv \<notin> set names) objs),
                trace := trace s @ map DeleteBlob names\<rparr>)"
  using assms
proof (induction names arbitrary: s objs)
  case Nil
  then show ?case by (simp add: delete_blobs_def return_io_def)
next
  case (Cons n ns)
  let ?s' = "s\<lparr>bucket := Some (filter (\<lambda>kv. fst kv \<noteq> n) objs), trace := trace s @ [DeleteBlob n]\<rparr>"
  have step: "delete_blob n s = (Inr (), ?s')"
    using Cons.prems by (simp add: delete_blob_def api_call_def)
  have sub: "set ns \<subseteq> fst ` set (filter (\<lambda>kv. fst kv \<noteq> n) objs)"
  proof
    fix x assume x: "x \<in> set ns"
    with Cons.prems(4) obtain kv where "kv \<in> set objs" "fst kv = x" by auto
    moreover have "x \<noteq> n" using x Cons.prems(3) by auto
    ultimately show "x \<in> fst ` set (filter (\<lambda>kv. fst kv \<noteq> n) objs)" by force
  qed
  have "delete_blobs ns ?s' =
     (Inr (), ?s'\<lparr>bucket := Some (filter (\<lambda>kv. fst kv \<notin> set ns) (filter (\<lambda>kv. fst kv \<noteq> n) objs)),
                trace := trace ?s' @ map DeleteBlob ns\<rparr>)"
    using Cons.prems(1,3) sub by (intro Cons.IH) simp_all
  moreover have "filter (\<lambda>kv. fst kv \<notin> set ns) (filter (\<lambda>kv. fst kv \<noteq> n) objs)
      = filter (\<lambda>kv. fst kv \<notin> set (n # ns)) objs"
    by (induction objs) auto
  ultimately show ?case
    using step by (simp add: delete_blobs_def then_io_def)
qed

lemma delete_listed:
  assumes "faults s = (\<lambda>op. None)" and "bucket s = Some objs" and "distinct (map fst objs)"
  shows "delete_blobs (filter (prefix pre) (map fst objs)) s =
     (Inr (), s\<lparr>bucket := Some (filter (\<lambda>kv. \<not> prefix pre (fst kv)) objs),
                trace := trace s @ map DeleteBlob (filter (prefix pre) (map fst objs))\<rparr>)"
proof -
  have "filter (\<lambda>kv. fst kv \<notin> set (filter (prefix pre) (map fst objs))) objs
      = filter (\<lambda>kv. \<not> prefix pre (fst kv)) objs"
    by (rule filter_cong) auto
  moreover have "distinct (filter (prefix pre) (map fst objs))"
    using assms(3) by simp
  moreover have "set (filter (prefix pre) (map fst objs)) \<subseteq> fst ` set objs"
    by auto
  ultimately show ?thesis
    using delete_blobs_healthy [OF assms(1,2), of "filter (prefix pre) (map fst objs)"] by simp
qed

lemma document_ids_set:
  "set (document_ids names acc) =
     set acc \<union> (\<lambda>n. split_on CHR ''/'' n ! 3) ` {n \<in> set names. 5 \<le> length (split_on CHR ''/'' n)}"
  by (induction names arbitrary: acc) (auto simp add: set_add_def Let_def)

lemma document_ids_distinct:
  "distinct acc \<Longrightarrow> distinct (document_ids names acc)"
  by (induction names arbitrary: acc) (auto simp add: set_add_def Let_def)

lemma document_ids_count:
  "length (document_ids names []) =
     card ((\<lambda>n. split_on CHR ''/'' n ! 3) ` {n \<in> set names. 5 \<le> length (split_on CHR ''/'' n)})"
proof -
  have "length (document_ids names []) = card (set (document_ids names []))"
    by (simp add: distinct_card document_ids_distinct)
  then show ?thesis by (simp add: document_ids_set)
qed

lemma split_on_segment:
  "c \<notin> set a \<Longrightarrow> split_on c (a @ c # r) = a # split_on c r"
  by (induction a) auto

lemma split_on_nonempty: "split_on c xs \<noteq> []"
  by (induction xs) (auto split: list.splits)

lemma split_document_key:
  assumes "CHR ''/'' \<notin> set u" and "CHR ''/'' \<notin> set d"
  shows "split_on CHR ''/'' (''users/'' @ u @ ''/documents/'' @ d @ ''/'' @ f)
     = ''users'' # u # ''documents'' # d # split_on CHR ''/'' f"
proof -
  have 1: "split_on CHR ''/'' (d @ CHR ''/'' # f) = d # split_on CHR ''/'' f"
    using assms(2) by (rule split_on_segment)
  have 2: "split_on CHR ''/'' (''documents'' @ CHR ''/'' # (d @ CHR ''/'' # f))
      = ''documents'' # split_on CHR ''/'' (d @ CHR ''/'' # f)"
    by (rule split_on_segment) simp
  have 3: "split_on CHR ''/'' (u @ CHR ''/'' # (''documents'' @ CHR ''/'' # (d @ CHR ''/'' # f)))
      = u # split_on CHR ''/'' (''documents'' @ CHR ''/'' # (d @ CHR ''/'' # f))"
    using assms(1) by (rule split_on_segment)
  have 4: "split_on CHR ''/'' (''users'' @ CHR ''/'' # (u @ CHR ''/'' # (''documents'' @ CHR ''/'' # (d @ CHR ''/'' # f))))
      = ''users'' # split_on CHR ''/'' (u @ CHR ''/'' # (''documents'' @ CHR ''/'' # (d @ CHR ''/'' # f)))"
    by (rule split_on_segment) simp
  have "''users/'' @ u @ ''/documents/'' @ d @ ''/'' @ f
      = ''users'' @ CHR ''/'' # (u @ CHR ''/'' # (''documents'' @ CHR ''/'' # (d @ CHR ''/'' # f)))"
    by simp
  then show ?thesis
    by (simp only: 1 2 3 4)
qed

lemma delete_embeddings_no_bucket:
  assumes "method req \<noteq> ''OPTIONS''" and "get_json req = JObj kvs"
    and "map_of kvs ''userId'' = Some user_id"
    and "faults s = (\<lambda>op. None)" and "bucket s = None"
  shows "delete_embeddings env req s =
     (respond (Deleted 0 ''No documents to delete'') 200, s\<lparr>trace := trace s @ [BucketExists]\<rparr>)"
  using assms
  by (simp add: delete_embeddings_def delete_try_fields handle_def then_io_def
      bucket_exists_healthy return_io_def)

lemma delete_embeddings_document:
  assumes "method req \<noteq> ''OPTIONS''" and "get_json req = JObj kvs"
    and "map_of kvs ''userId'' = Some user_id"
    and "map_of kvs ''documentId'' = Some document_id" and "truthy document_id"
    and "faults s = (\<lambda>op. None)" and "bucket s = Some objs" and "distinct (map fst objs)"
  shows "delete_embeddings env req s =
     (if filter (prefix (blob_path env user_id document_id [])) (map fst objs) = []
      then (respond (Failure (''Document '' @ fstr env document_id @ '' not found'')) 404,
            s\<lparr>trace := trace s @ [BucketExists, ListBlobs (blob_path env user_id document_id [])]\<rparr>)
      else (respond (Deleted 1 (''Successfully deleted document '' @ fstr env document_id)) 200,
            s\<lparr>bucket := Some (filter (\<lambda>kv. \<not> prefix (blob_path env user_id document_id []) (fst kv)) objs),
              trace := trace s @ [BucketExists, ListBlobs (blob_path env user_id document_id [])]
                 @ map DeleteBlob (filter (prefix (blob_path env user_id document_id [])) (map fst objs))\<rparr>))"
  using assms
  by (simp add: delete_embeddings_def delete_try_fields handle_def then_io_def
      bucket_exists_healthy list_blobs_healthy delete_listed delete_document_def
      return_io_def Let_def)

lemma delete_embeddings_all:
  assumes "method req \<noteq> ''OPTIONS''" and "get_json req = JObj kvs"
    and "map_of kvs ''userId'' = Some user_id"
    and "\<not> truthy (case map_of kvs ''documentId'' of None \<Rightarrow> JNull | Some v \<Rightarrow> v)"
    and "faults s = (\<lambda>op. None)" and "bucket s = Some objs" and "distinct (map fst objs)"
  shows "delete_embeddings env req s =
     (respond (Deleted
         (length (document_ids
            (filter (prefix (''users/'' @ fstr env user_id @ ''/documents/'')) (map fst objs)) []))
         (''Successfully deleted '' @
          str_nat (length (document_ids
            (filter (prefix (''users/'' @ fstr env user_id @ ''/documents/'')) (map fst objs)) []))
          @ '' documents for user '' @ fstr env user_id)) 200,
      s\<lparr>bucket := Some (filter
                (\<lambda>kv. \<not> prefix (''users/'' @ fstr env user_id @ ''/documents/'') (fst kv)) objs),
        trace := trace s @ [BucketExists, ListBlobs (''users/'' @ fstr env user_id @ ''/documents/'')]
           @ map DeleteBlob
               (filter (prefix (''users/'' @ fstr env user_id @ ''/documents/'')) (map fst objs))\<rparr>)"
  using assms
  by (simp add: delete_embeddings_def delete_try_fields handle_def then_io_def
      bucket_exists_healthy list_blobs_healthy delete_listed delete_all_def
      return_io_def Let_def)

lemma doc_id_count_remdups:
  "card (f ` {n \<in> set names. P n}) = length (remdups (map f (filter P names)))"
proof -
  have "set (map f (filter P names)) = f ` {n \<in> set names. P n}" by auto
  then show ?thesis by (simp add: length_remdups_card_conv)
qed

lemma document_ids_of_documents:
  assumes "CHR ''/'' \<notin> set u" and "\<forall>d\<in>set ds. CHR ''/'' \<notin> set d"
    and "\<forall>n\<in>set names. \<exists>d\<in>set ds. \<exists>f. n = ''users/'' @ u @ ''/documents/'' @ d @ ''/'' @ f"
    and "\<forall>d\<in>set ds. \<exists>f. ''users/'' @ u @ ''/documents/'' @ d @ ''/'' @ f \<in> set names"
  shows "(\<lambda>n. split_on CHR ''/'' n ! 3) ` {n \<in> set names. 5 \<le> length (split_on CHR ''/'' n)}
     = set ds"
proof (intro equalityI subsetI)
  fix x
  assume "x \<in> (\<lambda>n. split_on CHR ''/'' n ! 3) ` {n \<in> set names. 5 \<le> length (split_on CHR ''/'' n)}"
  then obtain n where n: "n \<in> set names" "x = split_on CHR ''/'' n ! 3" by auto
  with assms(3) obtain d f where d: "d \<in> set ds"
    "n = ''users/'' @ u @ ''/documents/'' @ d @ ''/'' @ f" by blast
  from assms(2) d(1) have "CHR ''/'' \<notin> set d" by blast
  from split_document_key [OF assms(1) this, of f] d(2)
  have "split_on CHR ''/'' n = ''users'' # u # ''documents'' # d # split_on CHR ''/'' f"
    by simp
  with n d show "x \<in> set ds" by simp
next
  fix d
  assume d: "d \<in> set ds"
  with assms(4) obtain f where f: "''users/'' @ u @ ''/documents/'' @ d @ ''/'' @ f \<in> set names"
    by blast
  from assms(2) d have "CHR ''/'' \<notin> set d" by blast
  from split_document_key [OF assms(1) this, of f]
  have sp: "split_on CHR ''/'' (''users/'' @ u @ ''/documents/'' @ d @ ''/'' @ f)
      = ''users'' # u # ''documents'' # d # split_on CHR ''/'' f" .
  have "5 \<le> length (''users'' # u # ''documents'' # d # split_on CHR ''/'' f)"
    using split_on_nonempty [of "CHR ''/''" f] by (cases "split_on CHR ''/'' f") simp_all
  then have len: "5 \<le> length (split_on CHR ''/'' (''users/'' @ u @ ''/documents/'' @ d @ ''/'' @ f))"
    by (simp only: sp)
  have "(''users'' # u # ''documents'' # d # split_on CHR ''/'' f) ! 3 = d"
    by simp
  then have nth: "split_on CHR ''/'' (''users/'' @ u @ ''/documents/'' @ d @ ''/'' @ f) ! 3 = d"
    by (simp only: sp)
  from f len have "''users/'' @ u @ ''/documents/'' @ d @ ''/'' @ f
      \<in> {n \<in> set names. 5 \<le> length (split_on CHR ''/'' n)}"
    by (rule_tac CollectI) (rule conjI)
  then have "split_on CHR ''/'' (''users/'' @ u @ ''/documents/'' @ d @ ''/'' @ f) ! 3
      \<in> (\<lambda>n. split_on CHR ''/'' n ! 3) ` {n \<in> set names. 5 \<le> length (split_on CHR ''/'' n)}"
    by (rule imageI)
  then show "d \<in> (\<lambda>n. split_on CHR ''/'' n ! 3) ` {n \<in> set names. 5 \<le> length (split_on CHR ''/'' n)}"
    by (simp only: nth)
qed

lemma save_request_healthy:
  assumes "faults s = (\<lambda>op. None)" and "cs \<noteq> []"
  shows "bucket (snd (save_embeddings env (save_request u d (JArr cs) m) s)) =
           Some (dict_set (''users/'' @ u @ ''/documents/'' @ d @ ''/metadata.json'') (dumps env m)
                  (dict_set (''users/'' @ u @ ''/documents/'' @ d @ ''/chunks.json'') (dumps env (JArr cs))
                     (case bucket s of None \<Rightarrow> [] | Some objs \<Rightarrow> objs)))"
    and "faults (snd (save_embeddings env (save_request u d (JArr cs) m) s)) = (\<lambda>op. None)"
proof -
  have eq: "save_embeddings env (save_request u d (JArr cs) m) s =
      handle (save_objects env (JStr u) (JStr d) (JStr ''a.pdf'') cs m) s"
    using assms(2)
    by (intro save_embeddings_fields
          [where kvs = "[(''userId'', JStr u), (''documentId'', JStr d),
             (''fileName'', JStr ''a.pdf''), (''chunks'', JArr cs), (''metadata'', m)]"])
       (simp_all add: save_request_def)
  show "bucket (snd (save_embeddings env (save_request u d (JArr cs) m) s)) =
           Some (dict_set (''users/'' @ u @ ''/documents/'' @ d @ ''/metadata.json'') (dumps env m)
                  (dict_set (''users/'' @ u @ ''/documents/'' @ d @ ''/chunks.json'') (dumps env (JArr cs))
                     (case bucket s of None \<Rightarrow> [] | Some objs \<Rightarrow> objs)))"
    using assms(1) by (simp add: eq save_objects_healthy blob_path_str)
  show "faults (snd (save_embeddings env (save_request u d (JArr cs) m) s)) = (\<lambda>op. None)"
    using assms(1) by (simp add: eq save_objects_healthy)
qed





























lemma str_nat_two: "str_nat (Suc (Suc 0)) = ''2''"
  by (simp add: str_nat.simps digit_def)

section \<open>Claims about Save\<close>

text \<open>
  C3. A Save request whose \<open>chunks\<close> field is an empty array is answered with status 400
  and the store is returned exactly as it was, its trace of API calls included: no object
  is written, no bucket is created, no call is made at all.
\<close>

theorem save_empty_chunks_no_store_access:
  assumes "method req \<noteq> ''OPTIONS''" and "get_json req = JObj kvs"
    and "map_of kvs ''chunks'' = Some (JArr [])"
  shows "\<exists>msg. save_embeddings env req s = (respond (Failure msg) 400, s)"
proof (cases "find (\<lambda>f. f \<notin> fst ` set kvs) required_fields")
  case None
  then obtain u d f c m where
    "map_of kvs ''userId'' = Some u" "map_of kvs ''documentId'' = Some d"
    "map_of kvs ''fileName'' = Some f" "map_of kvs ''chunks'' = Some c"
    "map_of kvs ''metadata'' = Some m"
    using all_present by blast
  with assms have "save_try env req = return_io (respond (Failure ''chunks array is empty'') 400)"
    by (simp add: save_try_fields)
  with assms(1) show ?thesis
    by (auto simp add: save_embeddings_def handle_return)
next
  case (Some field)
  have "kvs \<noteq> []" using assms(3) by auto
  with Some assms(2)
  have "save_try env req = return_io (respond (Failure (''Missing required field: '' @ field)) 400)"
    by (rule_tac save_try_missing)
  with assms(1) show ?thesis
    by (auto simp add: save_embeddings_def handle_return)
qed

theorem save_empty_chunks_no_store_access_witness:
  "\<exists>msg. save_embeddings sample_env (save_request ''u'' ''d'' (JArr []) metadata1) empty_store
     = (respond (Failure msg) 400, empty_store)"
  using save_empty_chunks_no_store_access
    [of "save_request ''u'' ''d'' (JArr []) metadata1"
        "[(''userId'', JStr ''u''), (''documentId'', JStr ''d''), (''fileName'', JStr ''a.pdf''),
          (''chunks'', JArr []), (''metadata'', metadata1)]" sample_env empty_store]
  by (simp add: save_request_def)

text \<open>
  C2, as the code has it. The body of the request is a non-empty JSON object. If one of
  the five fields is absent, the answer is 400 and names the first absent one; if all are
  there and \<open>chunks\<close> is not an array, or is the empty array, the answer is 400 with the
  message for that; each time the store is returned untouched. If all are there and
  \<open>chunks\<close> is a non-empty array, the answer is not a 400, whatever the other fields hold:
  empty strings and an empty metadata record are accepted.
\<close>

theorem save_validation:
  assumes "method req \<noteq> ''OPTIONS''" and "get_json req = JObj kvs" and "kvs \<noteq> []"
  shows "(\<forall>field. find (\<lambda>f. f \<notin> fst ` set kvs) required_fields = Some field \<longrightarrow>
            save_embeddings env req s =
              (respond (Failure (''Missing required field: '' @ field)) 400, s))
       \<and> (find (\<lambda>f. f \<notin> fst ` set kvs) required_fields = None \<longrightarrow>
            (case map_of kvs ''chunks'' of
               Some (JArr cs) \<Rightarrow>
                 if cs = []
                 then save_embeddings env req s = (respond (Failure ''chunks array is empty'') 400, s)
                 else status (fst (save_embeddings env req s)) \<in> {200, 500}
             | _ \<Rightarrow> save_embeddings env req s =
                      (respond (Failure ''chunks must be an array'') 400, s)))"
proof (intro conjI allI impI)
  fix field
  assume "find (\<lambda>f. f \<notin> fst ` set kvs) required_fields = Some field"
  with assms show "save_embeddings env req s =
      (respond (Failure (''Missing required field: '' @ field)) 400, s)"
    by (simp add: save_embeddings_def save_try_missing handle_return)
next
  assume "find (\<lambda>f. f \<notin> fst ` set kvs) required_fields = None"
  then obtain u d f c m where fields:
    "map_of kvs ''userId'' = Some u" "map_of kvs ''documentId'' = Some d"
    "map_of kvs ''fileName'' = Some f" "map_of kvs ''chunks'' = Some c"
    "map_of kvs ''metadata'' = Some m"
    using all_present by blast
  have tr: "save_try env req =
     (case c of
        JArr cs \<Rightarrow>
          if length cs = 0
          then return_io (respond (Failure ''chunks array is empty'') 400)
          else save_objects env u d f cs m
      | _ \<Rightarrow> return_io (respond (Failure ''chunks must be an array'') 400))"
    using assms(2) fields by (rule save_try_fields)
  have "status (fst (handle (save_objects env u d f cs m) s)) \<in> {200, 500}" for cs
  proof (cases "faults s (Upload (blob_path env u d ''chunks.json'') ''application/json'') = None
    \<and> faults s (Upload (blob_path env u d ''metadata.json'') ''application/json'') = None
    \<and> bucket (snd (get_or_create_bucket s)) \<noteq> None")
    case True
    then show ?thesis by (simp add: save_objects_ok respond_def)
  next
    case False
    from save_objects_failed [OF this, of f cs m] obtain msg where
      "fst (handle (save_objects env u d f cs m) s) = respond (Crashed (StorageError msg)) 500"
      by blast
    then show ?thesis by (simp add: respond_def)
  qed
  then show "case map_of kvs ''chunks'' of
       Some (JArr cs) \<Rightarrow>
         if cs = []
         then save_embeddings env req s = (respond (Failure ''chunks array is empty'') 400, s)
         else status (fst (save_embeddings env req s)) \<in> {200, 500}
     | _ \<Rightarrow> save_embeddings env req s = (respond (Failure ''chunks must be an array'') 400, s)"
    using assms(1) fields(4) tr
    by (cases c) (simp_all add: save_embeddings_def handle_return)
qed

theorem save_validation_witness:
  "save_embeddings sample_env
      \<lparr>method = ''POST'', get_json = JObj [(''userId'', JStr ''u''), (''fileName'', JStr ''a.pdf'')]\<rparr>
      empty_store
     = (respond (Failure ''Missing required field: documentId'') 400, empty_store)
   \<and> status (fst (save_embeddings sample_env
        (save_request [] [] (JArr chunks1) (JObj [])) empty_store)) \<in> {200, 500}"
proof -
  have a: "find (\<lambda>f. f \<notin> fst ` set [(''userId'', JStr ''u''), (''fileName'', JStr ''a.pdf'')])
      required_fields = Some ''documentId''"
    by (simp add: required_fields_def)
  have b: "find (\<lambda>f. f \<notin> fst ` set [(''userId'', JStr []), (''documentId'', JStr []),
      (''fileName'', JStr ''a.pdf''), (''chunks'', JArr chunks1), (''metadata'', JObj [])])
      required_fields = None"
    by (simp add: required_fields_def)
  show ?thesis
    using save_validation
      [of "\<lparr>method = ''POST'', get_json = JObj [(''userId'', JStr ''u''), (''fileName'', JStr ''a.pdf'')]\<rparr>"
          "[(''userId'', JStr ''u''), (''fileName'', JStr ''a.pdf'')]" sample_env empty_store]
      save_validation
      [of "save_request [] [] (JArr chunks1) (JObj [])"
          "[(''userId'', JStr []), (''documentId'', JStr []),
            (''fileName'', JStr ''a.pdf''), (''chunks'', JArr chunks1), (''metadata'', JObj [])]"
          sample_env empty_store]
      a b
    by (simp add: save_request_def chunks1_def)
qed

text \<open>
  C2 as stated fails: a request with an empty \<open>userId\<close>, an empty \<open>documentId\<close> and an empty
  metadata record, its chunks in order, is saved with status 200.
\<close>

theorem save_empty_ids_counterexample:
  "status (fst (save_embeddings sample_env
      \<lparr>method = ''POST'', get_json = JObj
         [(''userId'', JStr []), (''documentId'', JStr []), (''fileName'', JStr []),
          (''chunks'', JArr [JObj [(''chunkIndex'', JInt 0)]]), (''metadata'', JObj [])]\<rparr>
      \<lparr>bucket = Some [], faults = (\<lambda>op. None), trace = []\<rparr>)) = 200"
  by (simp add: save_embeddings_def save_try_def required_fields_def save_objects_def
      get_or_create_bucket_eq upload_eq then_io_def lift_io_def return_io_def handle_def
      respond_def Let_def)

text \<open>
  C8. A Save that is answered with status 200 has made exactly two uploads, in this
  order: the text of the chunks array to \<^verbatim>\<open>users/{userId}/documents/{documentId}/chunks.json\<close>
  and the text of the metadata to \<^verbatim>\<open>.../metadata.json\<close>. Each replaces the object of
  that name if there is one and leaves every other object alone. The response carries
  the number of chunks and the \<^verbatim>\<open>gs://\<close> locator of the chunks object.
\<close>

theorem save_writes_two_objects:
  assumes "method req \<noteq> ''OPTIONS''" and "get_json req = JObj kvs"
    and "map_of kvs ''userId'' = Some (JStr u)"
    and "map_of kvs ''documentId'' = Some (JStr d)"
    and "map_of kvs ''fileName'' = Some file_name"
    and "map_of kvs ''chunks'' = Some (JArr cs)"
    and "map_of kvs ''metadata'' = Some metadata"
    and "status (fst (save_embeddings env req s)) = 200"
  shows "fst (save_embeddings env req s) =
           respond (Saved (JStr d) (length cs)
             (''gs://myformsnapper-embeddings/users/'' @ u @ ''/documents/'' @ d @ ''/chunks.json'')
             ''cloud''
             (''Successfully saved '' @ str_nat (length cs) @ '' chunks for '' @ fstr env file_name))
             200
       \<and> bucket (snd (save_embeddings env req s)) =
           Some (dict_set (''users/'' @ u @ ''/documents/'' @ d @ ''/metadata.json'') (dumps env metadata)
             (dict_set (''users/'' @ u @ ''/documents/'' @ d @ ''/chunks.json'') (dumps env (JArr cs))
                (case bucket s of None \<Rightarrow> [] | Some objs \<Rightarrow> objs)))
       \<and> map_of (the (bucket (snd (save_embeddings env req s)))) =
           (map_of (case bucket s of None \<Rightarrow> [] | Some objs \<Rightarrow> objs))
             (''users/'' @ u @ ''/documents/'' @ d @ ''/chunks.json'' \<mapsto> dumps env (JArr cs),
              ''users/'' @ u @ ''/documents/'' @ d @ ''/metadata.json'' \<mapsto> dumps env metadata)
       \<and> trace (snd (save_embeddings env req s)) =
           trace s @ BucketExists # (if bucket s = None then [CreateBucket ''us-central1''] else [])
             @ [Upload (''users/'' @ u @ ''/documents/'' @ d @ ''/chunks.json'') ''application/json'',
                Upload (''users/'' @ u @ ''/documents/'' @ d @ ''/metadata.json'') ''application/json'']"
proof -
  have ne: "cs \<noteq> []"
  proof
    assume "cs = []"
    with assms(2-7) have "save_try env req = return_io (respond (Failure ''chunks array is empty'') 400)"
      by (simp add: save_try_fields)
    with assms(1,8) show False by (simp add: save_embeddings_def handle_return respond_def)
  qed
  have eq: "save_embeddings env req s =
      handle (save_objects env (JStr u) (JStr d) file_name cs metadata) s"
    using assms(1-7) ne by (rule save_embeddings_fields)
  have ok: "faults s (Upload (blob_path env (JStr u) (JStr d) ''chunks.json'') ''application/json'') = None
    \<and> faults s (Upload (blob_path env (JStr u) (JStr d) ''metadata.json'') ''application/json'') = None
    \<and> bucket (snd (get_or_create_bucket s)) \<noteq> None"
  proof (rule ccontr)
    assume "\<not> ?thesis"
    from save_objects_failed [OF this, of file_name cs metadata] obtain msg where
      "fst (handle (save_objects env (JStr u) (JStr d) file_name cs metadata) s)
         = respond (Crashed (StorageError msg)) 500"
      by blast
    with assms(8) eq show False by (simp add: respond_def)
  qed
  then have ready: "bucket s = None \<longrightarrow> faults s BucketExists = None"
    by (auto simp add: bucket_after_get_or_create split: if_splits)
  have objs: "the (bucket (snd (get_or_create_bucket s))) =
      (case bucket s of None \<Rightarrow> [] | Some objs \<Rightarrow> objs)"
    using ok by (cases "bucket s") (auto simp add: bucket_after_get_or_create split: if_splits)
  have res: "save_embeddings env req s =
     (respond (Saved (JStr d) (length cs)
              (''gs://myformsnapper-embeddings/'' @ blob_path env (JStr u) (JStr d) ''chunks.json'') ''cloud''
              (''Successfully saved '' @ str_nat (length cs) @ '' chunks for '' @ fstr env file_name)) 200,
            (snd (get_or_create_bucket s))
              \<lparr>bucket := Some (dict_set (blob_path env (JStr u) (JStr d) ''metadata.json'') (dumps env metadata)
                  (dict_set (blob_path env (JStr u) (JStr d) ''chunks.json'') (dumps env (JArr cs))
                     (the (bucket (snd (get_or_create_bucket s)))))),
               trace := trace (snd (get_or_create_bucket s)) @
                  [Upload (blob_path env (JStr u) (JStr d) ''chunks.json'') ''application/json'',
                   Upload (blob_path env (JStr u) (JStr d) ''metadata.json'') ''application/json'']\<rparr>)"
    using ok eq by (simp add: save_objects_ok)
  show ?thesis
    using ready
    by (simp add: res objs blob_path_str trace_after_get_or_create map_of_dict_set)
qed

theorem save_writes_two_objects_witness:
  "status (fst (save_embeddings sample_env (save_request ''u'' ''d'' (JArr chunks1) metadata1)
      empty_store)) = 200
   \<and> chunksSaved (body (fst (save_embeddings sample_env
        (save_request ''u'' ''d'' (JArr chunks1) metadata1) empty_store))) = 1
   \<and> storageUrl (body (fst (save_embeddings sample_env
        (save_request ''u'' ''d'' (JArr chunks1) metadata1) empty_store)))
      = ''gs://myformsnapper-embeddings/users/u/documents/d/chunks.json''
   \<and> bucket (snd (save_embeddings sample_env (save_request ''u'' ''d'' (JArr chunks1) metadata1)
        empty_store))
      = Some [(''users/u/documents/d/chunks.json'', chunks1_text),
              (''users/u/documents/d/metadata.json'', metadata1_text)]
   \<and> trace (snd (save_embeddings sample_env (save_request ''u'' ''d'' (JArr chunks1) metadata1)
        empty_store))
      = [BucketExists, CreateBucket ''us-central1'',
         Upload ''users/u/documents/d/chunks.json'' ''application/json'',
         Upload ''users/u/documents/d/metadata.json'' ''application/json'']"
  using sample_save_ok
    save_writes_two_objects
      [of "save_request ''u'' ''d'' (JArr chunks1) metadata1"
          "[(''userId'', JStr ''u''), (''documentId'', JStr ''d''), (''fileName'', JStr ''a.pdf''),
            (''chunks'', JArr chunks1), (''metadata'', metadata1)]"
          "''u''" "''d''" "JStr ''a.pdf''" chunks1 metadata1 sample_env empty_store]
  by (simp add: save_request_def respond_def empty_store_def sample_dumps fstr_def)
     (simp add: chunks1_def)

text \<open>
  C10, as the code has it. The existence check of the bucket raises, or the bucket is
  absent and its creation raises. The exception is swallowed and the upload of the chunks
  is attempted. Where the bucket exists, the request is answered by the two uploads alone:
  200 with both objects stored when the store takes both, otherwise 500 with the error of
  the upload that raised, the metadata upload being attempted only after the chunks
  upload went through. Where the bucket is absent, the chunks upload raises, the answer
  is 500 with that error and the metadata upload is not attempted.
\<close>

theorem save_swallows_bucket_errors:
  fixes env :: pyenv and user_id :: json and document_id :: json
  defines "c \<equiv> blob_path env user_id document_id ''chunks.json''"
  defines "m \<equiv> blob_path env user_id document_id ''metadata.json''"
  assumes "method req \<noteq> ''OPTIONS''" and "get_json req = JObj kvs"
    and "map_of kvs ''userId'' = Some user_id"
    and "map_of kvs ''documentId'' = Some document_id"
    and "map_of kvs ''fileName'' = Some file_name"
    and "map_of kvs ''chunks'' = Some (JArr cs)"
    and "map_of kvs ''metadata'' = Some metadata"
    and "cs \<noteq> []"
    and "faults s BucketExists \<noteq> None
         \<or> (bucket s = None \<and> faults s (CreateBucket ''us-central1'') \<noteq> None)"
  shows "(\<forall>objs. bucket s = Some objs \<longrightarrow>
            (faults s (Upload c ''application/json'') = None
             \<and> faults s (Upload m ''application/json'') = None \<longrightarrow>
               save_embeddings env req s =
                 (respond (Saved document_id (length cs) (''gs://myformsnapper-embeddings/'' @ c)
                    ''cloud''
                    (''Successfully saved '' @ str_nat (length cs) @ '' chunks for ''
                       @ fstr env file_name)) 200,
                  s\<lparr>bucket := Some (dict_set m (dumps env metadata)
                                (dict_set c (dumps env (JArr cs)) objs)),
                    trace := trace s @ [BucketExists, Upload c ''application/json'',
                               Upload m ''application/json'']\<rparr>))
          \<and> (\<forall>msg. faults s (Upload c ''application/json'') = Some msg \<longrightarrow>
               save_embeddings env req s =
                 (respond (Crashed (StorageError msg)) 500,
                  s\<lparr>trace := trace s @ [BucketExists, Upload c ''application/json'']\<rparr>))
          \<and> (\<forall>msg. faults s (Upload c ''application/json'') = None
                 \<and> faults s (Upload m ''application/json'') = Some msg \<longrightarrow>
               save_embeddings env req s =
                 (respond (Crashed (StorageError msg)) 500,
                  s\<lparr>bucket := Some (dict_set c (dumps env (JArr cs)) objs),
                    trace := trace s @ [BucketExists, Upload c ''application/json'',
                               Upload m ''application/json'']\<rparr>)))
       \<and> (bucket s = None \<longrightarrow>
            save_embeddings env req s =
              (respond (Crashed (StorageError
                 (case faults s (Upload c ''application/json'') of
                    Some msg \<Rightarrow> msg | None \<Rightarrow> ''NotFound''))) 500,
               s\<lparr>trace := trace s @ BucketExists #
                    (if faults s BucketExists = None then [CreateBucket ''us-central1''] else [])
                    @ [Upload c ''application/json'']\<rparr>))"
proof -
  have eq: "save_embeddings env req s =
      handle (save_objects env user_id document_id file_name cs metadata) s"
    using assms(3-10) by (rule save_embeddings_fields)
  have some: "faults s BucketExists \<noteq> None" if "bucket s = Some objs" for objs
    using assms(11) that by auto
  show ?thesis
  proof (intro conjI allI impI; (elim conjE)?)
    fix objs
    assume "bucket s = Some objs" "faults s (Upload c ''application/json'') = None"
      "faults s (Upload m ''application/json'') = None"
    with some [of objs] show "save_embeddings env req s =
       (respond (Saved document_id (length cs) (''gs://myformsnapper-embeddings/'' @ c) ''cloud''
          (''Successfully saved '' @ str_nat (length cs) @ '' chunks for '' @ fstr env file_name)) 200,
        s\<lparr>bucket := Some (dict_set m (dumps env metadata) (dict_set c (dumps env (JArr cs)) objs)),
          trace := trace s @ [BucketExists, Upload c ''application/json'',
                     Upload m ''application/json'']\<rparr>)"
      unfolding eq save_objects_def c_def m_def
      by (cases "faults s BucketExists")
         (simp_all add: get_or_create_bucket_eq upload_eq then_io_def handle_def return_io_def
            Let_def BUCKET_NAME_def)
  next
    fix objs msg
    assume "bucket s = Some objs" "faults s (Upload c ''application/json'') = Some msg"
    with some [of objs] show "save_embeddings env req s =
       (respond (Crashed (StorageError msg)) 500,
        s\<lparr>trace := trace s @ [BucketExists, Upload c ''application/json'']\<rparr>)"
      unfolding eq save_objects_def c_def m_def
      by (cases "faults s BucketExists")
         (simp_all add: get_or_create_bucket_eq upload_eq then_io_def handle_def return_io_def
            Let_def BUCKET_NAME_def)
  next
    fix objs msg
    assume "bucket s = Some objs" "faults s (Upload c ''application/json'') = None"
      "faults s (Upload m ''application/json'') = Some msg"
    with some [of objs] show "save_embeddings env req s =
       (respond (Crashed (StorageError msg)) 500,
        s\<lparr>bucket := Some (dict_set c (dumps env (JArr cs)) objs),
          trace := trace s @ [BucketExists, Upload c ''application/json'',
                     Upload m ''application/json'']\<rparr>)"
      unfolding eq save_objects_def c_def m_def
      by (cases "faults s BucketExists")
         (simp_all add: get_or_create_bucket_eq upload_eq then_io_def handle_def return_io_def
            Let_def BUCKET_NAME_def)
  next
    assume none: "bucket s = None"
    with assms(11) have "faults s BucketExists \<noteq> None \<or> faults s (CreateBucket ''us-central1'') \<noteq> None"
      by auto
    with none show "save_embeddings env req s =
       (respond (Crashed (StorageError
          (case faults s (Upload c ''application/json'') of
             Some msg \<Rightarrow> msg | None \<Rightarrow> ''NotFound''))) 500,
        s\<lparr>trace := trace s @ BucketExists #
             (if faults s BucketExists = None then [CreateBucket ''us-central1''] else [])
             @ [Upload c ''application/json'']\<rparr>)"
      unfolding eq save_objects_def c_def m_def
      by (cases "faults s BucketExists"; cases "faults s (CreateBucket ''us-central1'')";
          cases "faults s (Upload (blob_path env user_id document_id ''chunks.json'') ''application/json'')")
         (simp_all add: get_or_create_bucket_eq upload_eq then_io_def handle_def return_io_def
            Let_def BUCKET_NAME_def)
  qed
qed


theorem save_swallows_bucket_errors_witness:
  "status (fst (save_embeddings sample_env
      (save_request ''u'' ''d'' (JArr chunks1) metadata1) forbidden_store)) = 200
   \<and> bucket (snd (save_embeddings sample_env
        (save_request ''u'' ''d'' (JArr chunks1) metadata1) forbidden_store))
      = Some [(''users/u/documents/d/chunks.json'', chunks1_text),
              (''users/u/documents/d/metadata.json'', metadata1_text)]
   \<and> trace (snd (save_embeddings sample_env
        (save_request ''u'' ''d'' (JArr chunks1) metadata1) forbidden_store))
      = [BucketExists, Upload ''users/u/documents/d/chunks.json'' ''application/json'',
         Upload ''users/u/documents/d/metadata.json'' ''application/json'']
   \<and> fst (save_embeddings sample_env
        (save_request ''u'' ''d'' (JArr chunks1) metadata1) no_create_store)
      = respond (Crashed (StorageError ''NotFound'')) 500
   \<and> trace (snd (save_embeddings sample_env
        (save_request ''u'' ''d'' (JArr chunks1) metadata1) no_create_store))
      = [BucketExists, CreateBucket ''us-central1'',
         Upload ''users/u/documents/d/chunks.json'' ''application/json'']"
proof -
  note t = save_swallows_bucket_errors
      [where req = "save_request ''u'' ''d'' (JArr chunks1) metadata1"
         and kvs = "[(''userId'', JStr ''u''), (''documentId'', JStr ''d''),
            (''fileName'', JStr ''a.pdf''), (''chunks'', JArr chunks1), (''metadata'', metadata1)]"
         and user_id = "JStr ''u''" and document_id = "JStr ''d''" and file_name = "JStr ''a.pdf''"
         and cs = chunks1 and metadata = metadata1 and env = sample_env]
  have ne: "chunks1 \<noteq> []" by (simp add: chunks1_def)
  have a: "save_embeddings sample_env (save_request ''u'' ''d'' (JArr chunks1) metadata1) forbidden_store =
      (respond (Saved (JStr ''d'') (length chunks1)
         (''gs://myformsnapper-embeddings/'' @ blob_path sample_env (JStr ''u'') (JStr ''d'') ''chunks.json'')
         ''cloud''
         (''Successfully saved '' @ str_nat (length chunks1) @ '' chunks for ''
            @ fstr sample_env (JStr ''a.pdf''))) 200,
       forbidden_store\<lparr>bucket := Some (dict_set (blob_path sample_env (JStr ''u'') (JStr ''d'') ''metadata.json'')
              (dumps sample_env metadata1)
              (dict_set (blob_path sample_env (JStr ''u'') (JStr ''d'') ''chunks.json'')
                 (dumps sample_env (JArr chunks1)) [])),
         trace := trace forbidden_store @ [BucketExists,
            Upload (blob_path sample_env (JStr ''u'') (JStr ''d'') ''chunks.json'') ''application/json'',
            Upload (blob_path sample_env (JStr ''u'') (JStr ''d'') ''metadata.json'') ''application/json'']\<rparr>)"
    using t [of forbidden_store] ne
    by (simp add: save_request_def forbidden_store_def)
  have b: "save_embeddings sample_env (save_request ''u'' ''d'' (JArr chunks1) metadata1) no_create_store =
      (respond (Crashed (StorageError
         (case faults no_create_store
                 (Upload (blob_path sample_env (JStr ''u'') (JStr ''d'') ''chunks.json'') ''application/json'') of
            Some msg \<Rightarrow> msg | None \<Rightarrow> ''NotFound''))) 500,
       no_create_store\<lparr>trace := trace no_create_store @ BucketExists #
            (if faults no_create_store BucketExists = None then [CreateBucket ''us-central1''] else [])
            @ [Upload (blob_path sample_env (JStr ''u'') (JStr ''d'') ''chunks.json'') ''application/json'']\<rparr>)"
    using t [of no_create_store] ne
    by (simp add: save_request_def no_create_store_def)
  show ?thesis
    by (simp only: a b fst_conv snd_conv)
       (simp add: respond_def blob_path_str sample_dumps forbidden_store_def no_create_store_def)
qed

text \<open>
  C10 as stated fails where the bucket is absent and its creation raises: the request is
  answered 500 after the chunks upload alone was attempted, while the same request on the
  same store with no error from the creation is answered 200.
\<close>

theorem save_create_raises_counterexample:
  "fst (save_embeddings sample_env
      \<lparr>method = ''POST'', get_json = JObj
         [(''userId'', JStr ''u''), (''documentId'', JStr ''d''), (''fileName'', JStr ''a.pdf''),
          (''chunks'', JArr [JObj [(''chunkIndex'', JInt 0)]]), (''metadata'', JObj [])]\<rparr>
      \<lparr>bucket = None,
        faults = (\<lambda>op. if op = CreateBucket ''us-central1'' then Some ''Forbidden'' else None),
        trace = []\<rparr>)
     = respond (Crashed (StorageError ''NotFound'')) 500
   \<and> trace (snd (save_embeddings sample_env
      \<lparr>method = ''POST'', get_json = JObj
         [(''userId'', JStr ''u''), (''documentId'', JStr ''d''), (''fileName'', JStr ''a.pdf''),
          (''chunks'', JArr [JObj [(''chunkIndex'', JInt 0)]]), (''metadata'', JObj [])]\<rparr>
      \<lparr>bucket = None,
        faults = (\<lambda>op. if op = CreateBucket ''us-central1'' then Some ''Forbidden'' else None),
        trace = []\<rparr>))
     = [BucketExists, CreateBucket ''us-central1'',
        Upload ''users/u/documents/d/chunks.json'' ''application/json'']
   \<and> status (fst (save_embeddings sample_env
      \<lparr>method = ''POST'', get_json = JObj
         [(''userId'', JStr ''u''), (''documentId'', JStr ''d''), (''fileName'', JStr ''a.pdf''),
          (''chunks'', JArr [JObj [(''chunkIndex'', JInt 0)]]), (''metadata'', JObj [])]\<rparr>
      \<lparr>bucket = None, faults = (\<lambda>op. None), trace = []\<rparr>)) = 200"
  by (simp add: save_embeddings_def save_try_def required_fields_def save_objects_def
      get_or_create_bucket_eq upload_eq then_io_def lift_io_def return_io_def handle_def
      respond_def Let_def blob_path_str)

section \<open>Claims about Retrieve\<close>

text \<open>
  C4, as the code has it. The request names a document and the store answers its calls.
  With no bucket the answer is 200 with an empty result. With a bucket: if \<open>chunks.json\<close>
  of the document is not there the answer is 404; if it is there and decodes to something
  iterable, the answer is 200 with those items, with an empty metadata list and
  \<open>documentsCount = 0\<close> when \<open>metadata.json\<close> is absent, and with the decoded metadata as
  the only element and \<open>documentsCount = 1\<close> when it is present.
\<close>

theorem retrieve_single_document:
  assumes "method req \<noteq> ''OPTIONS''" and "get_json req = JObj kvs"
    and "map_of kvs ''userId'' = Some user_id"
    and "map_of kvs ''documentId'' = Some document_id" and "truthy document_id"
    and "faults s = (\<lambda>op. None)"
  shows "(bucket s = None \<longrightarrow>
            fst (retrieve_embeddings env req s) = respond (Retrieved [] [] 0 ''No documents found'') 200)
       \<and> (\<forall>objs. bucket s = Some objs \<longrightarrow>
            (map_of objs (blob_path env user_id document_id ''chunks.json'') = None \<longrightarrow>
               fst (retrieve_embeddings env req s) =
                 respond (Failure (''Document '' @ fstr env document_id @ '' not found'')) 404)
          \<and> (\<forall>text v items.
                map_of objs (blob_path env user_id document_id ''chunks.json'') = Some text
                \<and> loads env text = Some v \<and> py_extend [] v = Inr items \<longrightarrow>
                (map_of objs (blob_path env user_id document_id ''metadata.json'') = None \<longrightarrow>
                   fst (retrieve_embeddings env req s) =
                     respond (Retrieved items [] 0
                       (''Retrieved '' @ str_nat (length items) @ '' chunks from 0 documents'')) 200)
              \<and> (\<forall>mtext mv.
                    map_of objs (blob_path env user_id document_id ''metadata.json'') = Some mtext
                    \<and> loads env mtext = Some mv \<longrightarrow>
                    fst (retrieve_embeddings env req s) =
                      respond (Retrieved items [mv] 1
                        (''Retrieved '' @ str_nat (length items) @ '' chunks from 1 documents'')) 200)))"
proof (intro conjI allI impI; (elim conjE)?)
  assume "bucket s = None"
  with assms show "fst (retrieve_embeddings env req s) =
      respond (Retrieved [] [] 0 ''No documents found'') 200"
    by (simp add: retrieve_embeddings_no_bucket)
next
  fix objs
  assume b: "bucket s = Some objs"
    and "map_of objs (blob_path env user_id document_id ''chunks.json'') = None"
  with assms show "fst (retrieve_embeddings env req s) =
      respond (Failure (''Document '' @ fstr env document_id @ '' not found'')) 404"
    by (simp add: retrieve_embeddings_document retrieve_document_missing)
next
  fix objs ctext v items
  assume b: "bucket s = Some objs"
    and c: "map_of objs (blob_path env user_id document_id ''chunks.json'') = Some ctext"
      "loads env ctext = Some v" "py_extend [] v = Inr items"
    and m: "map_of objs (blob_path env user_id document_id ''metadata.json'') = None"
  have "fst (retrieve_document env user_id document_id (s\<lparr>trace := trace s @ [BucketExists]\<rparr>))
      = Inr (retrieved items [])"
    using assms(6) b c m by (simp add: retrieve_document_found)
  with assms b show "fst (retrieve_embeddings env req s) =
      respond (Retrieved items [] 0
        (''Retrieved '' @ str_nat (length items) @ '' chunks from 0 documents'')) 200"
    by (simp add: retrieve_embeddings_document retrieved_def str_nat_small)
next
  fix objs ctext v items mtext mv
  assume b: "bucket s = Some objs"
    and c: "map_of objs (blob_path env user_id document_id ''chunks.json'') = Some ctext"
      "loads env ctext = Some v" "py_extend [] v = Inr items"
    and m: "map_of objs (blob_path env user_id document_id ''metadata.json'') = Some mtext"
      "loads env mtext = Some mv"
  have "fst (retrieve_document env user_id document_id (s\<lparr>trace := trace s @ [BucketExists]\<rparr>))
      = Inr (retrieved items [mv])"
    using assms(6) b c m by (simp add: retrieve_document_found)
  with assms b show "fst (retrieve_embeddings env req s) =
      respond (Retrieved items [mv] 1
        (''Retrieved '' @ str_nat (length items) @ '' chunks from 1 documents'')) 200"
    by (simp add: retrieve_embeddings_document retrieved_def str_nat_small)
qed

theorem retrieve_single_document_witness:
  "fst (retrieve_embeddings sample_env (retrieve_request ''u'' ''d'') chunks_only_store) =
     respond (Retrieved chunks1 [] 0 ''Retrieved 1 chunks from 0 documents'') 200
   \<and> fst (retrieve_embeddings sample_env (retrieve_request ''u'' ''x'') chunks_only_store) =
     respond (Failure ''Document x not found'') 404"
proof -
  have a: "map_of [(''users/u/documents/d/chunks.json'', chunks1_text)]
      (blob_path sample_env (JStr ''u'') (JStr ''d'') ''chunks.json'') = Some chunks1_text
      \<and> loads sample_env chunks1_text = Some (JArr chunks1)
      \<and> py_extend [] (JArr chunks1) = Inr chunks1"
    by (simp add: blob_path_str sample_loads)
  have b: "map_of [(''users/u/documents/d/chunks.json'', chunks1_text)]
      (blob_path sample_env (JStr ''u'') (JStr ''d'') ''metadata.json'') = None"
    by (simp add: blob_path_str)
  have c: "map_of [(''users/u/documents/d/chunks.json'', chunks1_text)]
      (blob_path sample_env (JStr ''u'') (JStr ''x'') ''chunks.json'') = None"
    by (simp add: blob_path_str)
  have len: "length chunks1 = 1" by (simp add: chunks1_def)
  from retrieve_single_document
      [where req = "retrieve_request ''u'' ''d''"
         and kvs = "[(''userId'', JStr ''u''), (''documentId'', JStr ''d'')]"
         and user_id = "JStr ''u''" and document_id = "JStr ''d''"
         and s = chunks_only_store and env = sample_env]
  have "\<forall>objs. bucket chunks_only_store = Some objs \<longrightarrow>
          (\<forall>text v items.
              map_of objs (blob_path sample_env (JStr ''u'') (JStr ''d'') ''chunks.json'') = Some text
              \<and> loads sample_env text = Some v \<and> py_extend [] v = Inr items \<longrightarrow>
              (map_of objs (blob_path sample_env (JStr ''u'') (JStr ''d'') ''metadata.json'') = None \<longrightarrow>
                 fst (retrieve_embeddings sample_env (retrieve_request ''u'' ''d'') chunks_only_store) =
                   respond (Retrieved items [] 0
                     (''Retrieved '' @ str_nat (length items) @ '' chunks from 0 documents'')) 200))"
    by (simp add: retrieve_request_def chunks_only_store_def)
  with a b have first: "fst (retrieve_embeddings sample_env (retrieve_request ''u'' ''d'') chunks_only_store) =
     respond (Retrieved chunks1 [] 0
        (''Retrieved '' @ str_nat (length chunks1) @ '' chunks from 0 documents'')) 200"
    by (simp add: chunks_only_store_def)
  from retrieve_single_document
      [where req = "retrieve_request ''u'' ''x''"
         and kvs = "[(''userId'', JStr ''u''), (''documentId'', JStr ''x'')]"
         and user_id = "JStr ''u''" and document_id = "JStr ''x''"
         and s = chunks_only_store and env = sample_env]
  have "\<forall>objs. bucket chunks_only_store = Some objs \<longrightarrow>
          (map_of objs (blob_path sample_env (JStr ''u'') (JStr ''x'') ''chunks.json'') = None \<longrightarrow>
             fst (retrieve_embeddings sample_env (retrieve_request ''u'' ''x'') chunks_only_store) =
               respond (Failure (''Document '' @ fstr sample_env (JStr ''x'') @ '' not found'')) 404)"
    by (simp add: retrieve_request_def chunks_only_store_def)
  with c have second: "fst (retrieve_embeddings sample_env (retrieve_request ''u'' ''x'') chunks_only_store) =
     respond (Failure (''Document '' @ fstr sample_env (JStr ''x'') @ '' not found'')) 404"
    by (simp add: chunks_only_store_def)
  show ?thesis
    using first second by (simp add: len str_nat_small fstr_def)
qed

text \<open>
  C4 as stated fails where there is no bucket: the \<open>chunks.json\<close> of the requested document
  does not exist, and the answer is 200 with an empty result, not 404.
\<close>

theorem retrieve_without_bucket_counterexample:
  "fst (retrieve_embeddings sample_env
      \<lparr>method = ''POST'', get_json = JObj [(''userId'', JStr ''u''), (''documentId'', JStr ''d'')]\<rparr>
      \<lparr>bucket = None, faults = (\<lambda>op. None), trace = []\<rparr>)
   = respond (Retrieved [] [] 0 ''No documents found'') 200"
  by (simp add: retrieve_embeddings_def retrieve_try_def handle_def then_io_def lift_io_def
      return_io_def bucket_exists_def api_call_def Let_def)




section \<open>Claims about Delete\<close>

text \<open>
  C7, as the code has it. On a store that answers its calls: with no bucket, Delete is
  answered with 200 and \<open>documentsDeleted = 0\<close>. With a bucket and a truthy document id in
  the request: if no object name starts with \<^verbatim>\<open>users/{userId}/documents/{documentId}/\<close>
  the answer is 404 and nothing is deleted; otherwise every object whose name starts so is
  deleted, one call each, the others stay, and the answer is 200 with
  \<open>documentsDeleted = 1\<close>.
\<close>

theorem delete_specific_document:
  assumes "method req \<noteq> ''OPTIONS''" and "get_json req = JObj kvs"
    and "map_of kvs ''userId'' = Some user_id"
    and "faults s = (\<lambda>op. None)"
  shows "(bucket s = None \<longrightarrow>
            fst (delete_embeddings env req s) = respond (Deleted 0 ''No documents to delete'') 200
          \<and> bucket (snd (delete_embeddings env req s)) = None)
       \<and> (\<forall>objs document_id.
            bucket s = Some objs \<and> distinct (map fst objs)
            \<and> map_of kvs ''documentId'' = Some document_id \<and> truthy document_id \<longrightarrow>
            (filter (prefix (blob_path env user_id document_id [])) (map fst objs) = [] \<longrightarrow>
               fst (delete_embeddings env req s) =
                 respond (Failure (''Document '' @ fstr env document_id @ '' not found'')) 404
             \<and> bucket (snd (delete_embeddings env req s)) = Some objs)
          \<and> (filter (prefix (blob_path env user_id document_id [])) (map fst objs) \<noteq> [] \<longrightarrow>
               fst (delete_embeddings env req s) =
                 respond (Deleted 1 (''Successfully deleted document '' @ fstr env document_id)) 200
             \<and> bucket (snd (delete_embeddings env req s)) =
                 Some (filter (\<lambda>kv. \<not> prefix (blob_path env user_id document_id []) (fst kv)) objs)
             \<and> trace (snd (delete_embeddings env req s)) =
                 trace s @ [BucketExists, ListBlobs (blob_path env user_id document_id [])]
                   @ map DeleteBlob
                       (filter (prefix (blob_path env user_id document_id [])) (map fst objs))))"
proof (intro conjI allI impI; (elim conjE)?)
  assume "bucket s = None"
  with assms show "fst (delete_embeddings env req s) = respond (Deleted 0 ''No documents to delete'') 200"
    and "bucket (snd (delete_embeddings env req s)) = None"
    by (simp_all add: delete_embeddings_no_bucket)
next
  fix objs document_id
  assume h: "bucket s = Some objs" "distinct (map fst objs)"
    "map_of kvs ''documentId'' = Some document_id" "truthy document_id"
    and e: "filter (prefix (blob_path env user_id document_id [])) (map fst objs) = []"
  note r = delete_embeddings_document [OF assms(1-3) h(3,4) assms(4) h(1,2), of env]
  show "fst (delete_embeddings env req s) =
      respond (Failure (''Document '' @ fstr env document_id @ '' not found'')) 404"
    and "bucket (snd (delete_embeddings env req s)) = Some objs"
    using e h(1) by (simp_all add: r)
next
  fix objs document_id
  assume h: "bucket s = Some objs" "distinct (map fst objs)"
    "map_of kvs ''documentId'' = Some document_id" "truthy document_id"
    and e: "filter (prefix (blob_path env user_id document_id [])) (map fst objs) \<noteq> []"
  note r = delete_embeddings_document [OF assms(1-3) h(3,4) assms(4) h(1,2), of env]
  show "fst (delete_embeddings env req s) =
      respond (Deleted 1 (''Successfully deleted document '' @ fstr env document_id)) 200"
    and "bucket (snd (delete_embeddings env req s)) =
      Some (filter (\<lambda>kv. \<not> prefix (blob_path env user_id document_id []) (fst kv)) objs)"
    and "trace (snd (delete_embeddings env req s)) =
      trace s @ [BucketExists, ListBlobs (blob_path env user_id document_id [])]
        @ map DeleteBlob (filter (prefix (blob_path env user_id document_id [])) (map fst objs))"
    using e by (simp_all add: r)
qed

theorem delete_specific_document_witness:
  "fst (delete_embeddings sample_env (delete_request ''u'' (JStr ''d'')) one_doc_store) =
     respond (Deleted 1 ''Successfully deleted document d'') 200
   \<and> bucket (snd (delete_embeddings sample_env (delete_request ''u'' (JStr ''d'')) one_doc_store)) = Some []
   \<and> fst (delete_embeddings sample_env (delete_request ''u'' (JStr ''x'')) one_doc_store) =
     respond (Failure ''Document x not found'') 404
   \<and> fst (delete_embeddings sample_env (delete_request ''u'' (JStr ''d'')) empty_store) =
     respond (Deleted 0 ''No documents to delete'') 200"
proof -
  let ?objs = "[(''users/u/documents/d/chunks.json'', chunks1_text),
       (''users/u/documents/d/metadata.json'', metadata1_text)]"
  note t = delete_specific_document
      [where kvs = "[(''userId'', JStr ''u''), (''documentId'', JStr d)]"
         and req = "delete_request ''u'' (JStr d)"
         and user_id = "JStr ''u''" and env = sample_env for d]
  have pd: "filter (prefix (blob_path sample_env (JStr ''u'') (JStr ''d'') [])) (map fst ?objs) \<noteq> []"
    and px: "filter (prefix (blob_path sample_env (JStr ''u'') (JStr ''x'') [])) (map fst ?objs) = []"
    by (simp_all add: blob_path_str)
  have keep: "filter (\<lambda>kv. \<not> prefix (blob_path sample_env (JStr ''u'') (JStr ''d'') []) (fst kv)) ?objs = []"
    by (simp add: blob_path_str)
  have a: "fst (delete_embeddings sample_env (delete_request ''u'' (JStr ''d'')) one_doc_store) =
        respond (Deleted 1 (''Successfully deleted document '' @ fstr sample_env (JStr ''d''))) 200
      \<and> bucket (snd (delete_embeddings sample_env (delete_request ''u'' (JStr ''d'')) one_doc_store)) =
        Some (filter (\<lambda>kv. \<not> prefix (blob_path sample_env (JStr ''u'') (JStr ''d'') []) (fst kv)) ?objs)"
    using t [of "''d''" one_doc_store] pd
    by (simp add: delete_request_def one_doc_store_def)
  have b: "fst (delete_embeddings sample_env (delete_request ''u'' (JStr ''x'')) one_doc_store) =
        respond (Failure (''Document '' @ fstr sample_env (JStr ''x'') @ '' not found'')) 404"
    using t [of "''x''" one_doc_store] px
    by (simp add: delete_request_def one_doc_store_def)
  have c: "fst (delete_embeddings sample_env (delete_request ''u'' (JStr ''d'')) empty_store) =
     respond (Deleted 0 ''No documents to delete'') 200"
    using t [of "''d''" empty_store]
    by (simp add: delete_request_def empty_store_def)
  show ?thesis
    using a b c by (simp add: blob_path_str fstr_def)
qed

text \<open>
  C7 as stated fails for the empty document id: no object name starts with
  \<^verbatim>\<open>users/u/documents//\<close>, and the answer is not 404: every document of the user is
  deleted and two are reported.
\<close>

theorem delete_empty_id_counterexample:
  "filter (prefix ''users/u/documents//'') (map fst (the (bucket two_doc_store))) = []
   \<and> fst (delete_embeddings sample_env (delete_request ''u'' (JStr [])) two_doc_store)
     = respond (Deleted 2 ''Successfully deleted 2 documents for user u'') 200
   \<and> bucket (snd (delete_embeddings sample_env (delete_request ''u'' (JStr [])) two_doc_store))
     = Some [(''users/v/documents/d/chunks.json'', chunks1_text)]"
proof -
  let ?objs = "[(''users/u/documents/d/chunks.json'', chunks1_text),
       (''users/u/documents/d/metadata.json'', metadata1_text),
       (''users/u/documents/e/chunks.json'', chunks1_text),
       (''users/v/documents/d/chunks.json'', chunks1_text)]"
  have ids: "document_ids (filter (prefix ''users/u/documents/'') (map fst ?objs)) [] = [''d'', ''e'']"
    by (simp add: set_add_def Let_def)
  have "delete_embeddings sample_env (delete_request ''u'' (JStr [])) two_doc_store =
     (respond (Deleted
         (length (document_ids
            (filter (prefix (''users/'' @ fstr sample_env (JStr ''u'') @ ''/documents/'')) (map fst ?objs)) []))
         (''Successfully deleted '' @
          str_nat (length (document_ids
            (filter (prefix (''users/'' @ fstr sample_env (JStr ''u'') @ ''/documents/'')) (map fst ?objs)) []))
          @ '' documents for user '' @ fstr sample_env (JStr ''u''))) 200,
      two_doc_store\<lparr>bucket := Some (filter
                (\<lambda>kv. \<not> prefix (''users/'' @ fstr sample_env (JStr ''u'') @ ''/documents/'') (fst kv)) ?objs),
        trace := trace two_doc_store @ [BucketExists, ListBlobs (''users/'' @ fstr sample_env (JStr ''u'') @ ''/documents/'')]
           @ map DeleteBlob
               (filter (prefix (''users/'' @ fstr sample_env (JStr ''u'') @ ''/documents/'')) (map fst ?objs))\<rparr>)"
    by (intro delete_embeddings_all
          [where kvs = "[(''userId'', JStr ''u''), (''documentId'', JStr [])]"])
       (simp_all add: delete_request_def two_doc_store_def)
  then have res: "fst (delete_embeddings sample_env (delete_request ''u'' (JStr [])) two_doc_store) =
     respond (Deleted
         (length (document_ids (filter (prefix ''users/u/documents/'') (map fst ?objs)) []))
         (''Successfully deleted '' @
          str_nat (length (document_ids (filter (prefix ''users/u/documents/'') (map fst ?objs)) []))
          @ '' documents for user u'')) 200"
    and bk: "bucket (snd (delete_embeddings sample_env (delete_request ''u'' (JStr [])) two_doc_store))
      = Some [(''users/v/documents/d/chunks.json'', chunks1_text)]"
    by (simp_all add: fstr_def)
  have empty: "filter (prefix ''users/u/documents//'') (map fst (the (bucket two_doc_store))) = []"
    by (simp add: two_doc_store_def)
  from res have "fst (delete_embeddings sample_env (delete_request ''u'' (JStr [])) two_doc_store)
     = respond (Deleted 2 ''Successfully deleted 2 documents for user u'') 200"
    by (simp only: ids) (simp add: str_nat_two numeral_2_eq_2)
  with bk empty show ?thesis by simp
qed

text \<open>
  C6, as the code has it. The request names no document, the bucket exists and the store
  answers its calls. Every object whose name starts with \<^verbatim>\<open>users/{userId}/documents/\<close> is
  deleted, the others stay. \<open>documentsDeleted\<close> is the number of distinct values of the 4th
  component among the listed names that have five components or more, whatever the number
  of objects. Where neither the user id nor any document id holds a \<^verbatim>\<open>/\<close> and the listed
  objects are those of \<open>N\<close> distinct documents, at least one of each, that number is \<open>N\<close>.
\<close>

theorem delete_all_documents:
  assumes "method req \<noteq> ''OPTIONS''" and "get_json req = JObj kvs"
    and "map_of kvs ''userId'' = Some (JStr u)"
    and "\<not> truthy (case map_of kvs ''documentId'' of None \<Rightarrow> JNull | Some v \<Rightarrow> v)"
    and "faults s = (\<lambda>op. None)" and "bucket s = Some objs" and "distinct (map fst objs)"
  shows "fst (delete_embeddings env req s) =
           respond (Deleted
             (card ((\<lambda>n. split_on CHR ''/'' n ! 3) `
                {n \<in> set (filter (prefix (''users/'' @ u @ ''/documents/'')) (map fst objs)).
                   5 \<le> length (split_on CHR ''/'' n)}))
             (''Successfully deleted '' @
              str_nat (card ((\<lambda>n. split_on CHR ''/'' n ! 3) `
                {n \<in> set (filter (prefix (''users/'' @ u @ ''/documents/'')) (map fst objs)).
                   5 \<le> length (split_on CHR ''/'' n)}))
              @ '' documents for user '' @ u)) 200
       \<and> bucket (snd (delete_embeddings env req s)) =
           Some (filter (\<lambda>kv. \<not> prefix (''users/'' @ u @ ''/documents/'') (fst kv)) objs)
       \<and> trace (snd (delete_embeddings env req s)) =
           trace s @ [BucketExists, ListBlobs (''users/'' @ u @ ''/documents/'')]
             @ map DeleteBlob (filter (prefix (''users/'' @ u @ ''/documents/'')) (map fst objs))
       \<and> (\<forall>ds. CHR ''/'' \<notin> set u \<and> distinct ds \<and> (\<forall>d\<in>set ds. CHR ''/'' \<notin> set d)
             \<and> (\<forall>n\<in>set (filter (prefix (''users/'' @ u @ ''/documents/'')) (map fst objs)).
                   \<exists>d\<in>set ds. \<exists>f. n = ''users/'' @ u @ ''/documents/'' @ d @ ''/'' @ f)
             \<and> (\<forall>d\<in>set ds. \<exists>f. ''users/'' @ u @ ''/documents/'' @ d @ ''/'' @ f
                   \<in> set (filter (prefix (''users/'' @ u @ ''/documents/'')) (map fst objs)))
             \<longrightarrow> documentsDeleted (body (fst (delete_embeddings env req s))) = length ds)"
proof -
  let ?listed = "filter (prefix (''users/'' @ u @ ''/documents/'')) (map fst objs)"
  let ?ids = "(\<lambda>n. split_on CHR ''/'' n ! 3) ` {n \<in> set ?listed. 5 \<le> length (split_on CHR ''/'' n)}"
  note r = delete_embeddings_all [OF assms, of env]
  have cnt: "length (document_ids ?listed []) = card ?ids"
    by (rule document_ids_count)
  have res: "fst (delete_embeddings env req s) =
      respond (Deleted (card ?ids)
        (''Successfully deleted '' @ str_nat (card ?ids) @ '' documents for user '' @ u)) 200"
    using cnt by (simp add: r fstr_def)
  have "documentsDeleted (body (fst (delete_embeddings env req s))) = length ds"
    if h: "CHR ''/'' \<notin> set u" "distinct ds" "\<forall>d\<in>set ds. CHR ''/'' \<notin> set d"
      "\<forall>n\<in>set ?listed. \<exists>d\<in>set ds. \<exists>f. n = ''users/'' @ u @ ''/documents/'' @ d @ ''/'' @ f"
      "\<forall>d\<in>set ds. \<exists>f. ''users/'' @ u @ ''/documents/'' @ d @ ''/'' @ f \<in> set ?listed"
    for ds
  proof -
    have "?ids = set ds"
      using h(1,3,4,5) by (rule document_ids_of_documents)
    then have "card ?ids = length ds"
      using h(2) by (simp add: distinct_card)
    then show ?thesis by (simp add: res respond_def)
  qed
  then show ?thesis
    using res by (simp add: r fstr_def)
qed

theorem delete_all_documents_witness:
  "documentsDeleted (body (fst (delete_embeddings sample_env (delete_request ''u'' JNull) two_doc_store)))
     = 2
   \<and> status (fst (delete_embeddings sample_env (delete_request ''u'' JNull) two_doc_store)) = 200
   \<and> bucket (snd (delete_embeddings sample_env (delete_request ''u'' JNull) two_doc_store))
     = Some [(''users/v/documents/d/chunks.json'', chunks1_text)]"
proof -
  let ?objs = "[(''users/u/documents/d/chunks.json'', chunks1_text),
       (''users/u/documents/d/metadata.json'', metadata1_text),
       (''users/u/documents/e/chunks.json'', chunks1_text),
       (''users/v/documents/d/chunks.json'', chunks1_text)]"
  note t = delete_all_documents
      [where req = "delete_request ''u'' JNull"
         and kvs = "[(''userId'', JStr ''u''), (''documentId'', JNull)]"
         and u = "''u''" and s = two_doc_store and objs = ?objs and env = sample_env]
  have pre: "method (delete_request ''u'' JNull) \<noteq> ''OPTIONS''"
    "get_json (delete_request ''u'' JNull) = JObj [(''userId'', JStr ''u''), (''documentId'', JNull)]"
    "map_of [(''userId'', JStr ''u''), (''documentId'', JNull)] ''userId'' = Some (JStr ''u'')"
    "\<not> truthy (case map_of [(''userId'', JStr ''u''), (''documentId'', JNull)] ''documentId'' of
        None \<Rightarrow> JNull | Some v \<Rightarrow> v)"
    "faults two_doc_store = (\<lambda>op. None)" "bucket two_doc_store = Some ?objs"
    "distinct (map fst ?objs)"
    by (simp_all add: delete_request_def two_doc_store_def)
  note r = t [OF pre]
  have docs: "CHR ''/'' \<notin> set ''u'' \<and> distinct [''d'', ''e''] \<and> (\<forall>d\<in>set [''d'', ''e'']. CHR ''/'' \<notin> set d)
      \<and> (\<forall>n\<in>set (filter (prefix (''users/'' @ ''u'' @ ''/documents/'')) (map fst ?objs)).
            \<exists>d\<in>set [''d'', ''e'']. \<exists>f. n = ''users/'' @ ''u'' @ ''/documents/'' @ d @ ''/'' @ f)
      \<and> (\<forall>d\<in>set [''d'', ''e'']. \<exists>f. ''users/'' @ ''u'' @ ''/documents/'' @ d @ ''/'' @ f
            \<in> set (filter (prefix (''users/'' @ ''u'' @ ''/documents/'')) (map fst ?objs)))"
    by auto
  from r have "\<forall>ds. CHR ''/'' \<notin> set ''u'' \<and> distinct ds \<and> (\<forall>d\<in>set ds. CHR ''/'' \<notin> set d)
      \<and> (\<forall>n\<in>set (filter (prefix (''users/'' @ ''u'' @ ''/documents/'')) (map fst ?objs)).
            \<exists>d\<in>set ds. \<exists>f. n = ''users/'' @ ''u'' @ ''/documents/'' @ d @ ''/'' @ f)
      \<and> (\<forall>d\<in>set ds. \<exists>f. ''users/'' @ ''u'' @ ''/documents/'' @ d @ ''/'' @ f
            \<in> set (filter (prefix (''users/'' @ ''u'' @ ''/documents/'')) (map fst ?objs)))
      \<longrightarrow> documentsDeleted (body (fst (delete_embeddings sample_env (delete_request ''u'' JNull)
              two_doc_store))) = length ds"
    by blast
  with docs have n: "documentsDeleted (body (fst (delete_embeddings sample_env
      (delete_request ''u'' JNull) two_doc_store))) = length [''d'', ''e'']"
    by blast
  from r have st: "status (fst (delete_embeddings sample_env (delete_request ''u'' JNull) two_doc_store)) = 200"
    by (simp add: respond_def)
  from r have "bucket (snd (delete_embeddings sample_env (delete_request ''u'' JNull) two_doc_store))
     = Some (filter (\<lambda>kv. \<not> prefix (''users/'' @ ''u'' @ ''/documents/'') (fst kv)) ?objs)"
    by blast
  then have b: "bucket (snd (delete_embeddings sample_env (delete_request ''u'' JNull) two_doc_store))
     = Some [(''users/v/documents/d/chunks.json'', chunks1_text)]"
    by simp
  show ?thesis
    using n st b by simp
qed

text \<open>
  C6 as stated fails for document ids that hold a \<^verbatim>\<open>/\<close>: after the two documents \<^verbatim>\<open>a/x\<close>
  and \<^verbatim>\<open>a/y\<close> of user \<^verbatim>\<open>u\<close> are saved, deleting all documents of \<^verbatim>\<open>u\<close> reports one.
\<close>

theorem delete_all_slash_ids_counterexample:
  "fst (delete_embeddings sample_env
      \<lparr>method = ''POST'', get_json = JObj [(''userId'', JStr ''u'')]\<rparr>
      (snd (save_embeddings sample_env (save_request ''u'' ''a/y'' (JArr chunks1) metadata1)
        (snd (save_embeddings sample_env (save_request ''u'' ''a/x'' (JArr chunks1) metadata1)
           empty_store)))))
   = respond (Deleted 1 ''Successfully deleted 1 documents for user u'') 200"
proof -
  let ?s1 = "snd (save_embeddings sample_env (save_request ''u'' ''a/x'' (JArr chunks1) metadata1)
     empty_store)"
  let ?s2 = "snd (save_embeddings sample_env (save_request ''u'' ''a/y'' (JArr chunks1) metadata1) ?s1)"
  let ?objs = "[(''users/u/documents/a/x/chunks.json'', chunks1_text),
       (''users/u/documents/a/x/metadata.json'', metadata1_text),
       (''users/u/documents/a/y/chunks.json'', chunks1_text),
       (''users/u/documents/a/y/metadata.json'', metadata1_text)]"
  have ne: "chunks1 \<noteq> []" by (simp add: chunks1_def)
  have f0: "faults empty_store = (\<lambda>op. None)" by (simp add: empty_store_def)
  have b0: "bucket empty_store = None" by (simp add: empty_store_def)
  have f1: "faults ?s1 = (\<lambda>op. None)"
    using f0 ne by (rule save_request_healthy)
  have b1: "bucket ?s1 = Some [(''users/u/documents/a/x/chunks.json'', chunks1_text),
       (''users/u/documents/a/x/metadata.json'', metadata1_text)]"
    using b0 by (simp add: save_request_healthy [OF f0 ne] sample_dumps)
  have f2: "faults ?s2 = (\<lambda>op. None)"
    using f1 ne by (rule save_request_healthy)
  have b2: "bucket ?s2 = Some ?objs"
    by (simp add: save_request_healthy [OF f1 ne] sample_dumps b1)
  have ids: "document_ids (filter (prefix ''users/u/documents/'') (map fst ?objs)) [] = [''a'']"
    by (simp add: set_add_def Let_def)
  have "delete_embeddings sample_env
      \<lparr>method = ''POST'', get_json = JObj [(''userId'', JStr ''u'')]\<rparr> ?s2 =
     (respond (Deleted
         (length (document_ids
            (filter (prefix (''users/'' @ fstr sample_env (JStr ''u'') @ ''/documents/'')) (map fst ?objs)) []))
         (''Successfully deleted '' @
          str_nat (length (document_ids
            (filter (prefix (''users/'' @ fstr sample_env (JStr ''u'') @ ''/documents/'')) (map fst ?objs)) []))
          @ '' documents for user '' @ fstr sample_env (JStr ''u''))) 200,
      ?s2\<lparr>bucket := Some (filter
                (\<lambda>kv. \<not> prefix (''users/'' @ fstr sample_env (JStr ''u'') @ ''/documents/'') (fst kv)) ?objs),
        trace := trace ?s2 @ [BucketExists, ListBlobs (''users/'' @ fstr sample_env (JStr ''u'') @ ''/documents/'')]
           @ map DeleteBlob
               (filter (prefix (''users/'' @ fstr sample_env (JStr ''u'') @ ''/documents/'')) (map fst ?objs))\<rparr>)"
    using f2 b2
    by (intro delete_embeddings_all [where kvs = "[(''userId'', JStr ''u'')]"]) simp_all
  then have "fst (delete_embeddings sample_env
      \<lparr>method = ''POST'', get_json = JObj [(''userId'', JStr ''u'')]\<rparr> ?s2) =
     respond (Deleted
         (length (document_ids (filter (prefix ''users/u/documents/'') (map fst ?objs)) []))
         (''Successfully deleted '' @
          str_nat (length (document_ids (filter (prefix ''users/u/documents/'') (map fst ?objs)) []))
          @ '' documents for user u'')) 200"
    by (simp add: fstr_def)
  then show ?thesis
    by (simp only: ids) (simp add: str_nat_small)
qed

text \<open>
  C9. In the all-documents Delete, on a store that answers its calls, \<open>documentsDeleted\<close> is
  the number of distinct 4th components among the listed names that split into five parts
  or more, and every listed name is deleted, those of fewer parts too: such a name is
  gone from the bucket and counts for nothing.
\<close>

theorem delete_all_skips_short_keys:
  assumes "method req \<noteq> ''OPTIONS''" and "get_json req = JObj kvs"
    and "map_of kvs ''userId'' = Some user_id"
    and "\<not> truthy (case map_of kvs ''documentId'' of None \<Rightarrow> JNull | Some v \<Rightarrow> v)"
    and "faults s = (\<lambda>op. None)" and "bucket s = Some objs" and "distinct (map fst objs)"
  shows "(\<exists>msg. fst (delete_embeddings env req s) =
            respond (Deleted
              (card ((\<lambda>n. split_on CHR ''/'' n ! 3) `
                 {n \<in> set (filter (prefix (''users/'' @ fstr env user_id @ ''/documents/'')) (map fst objs)).
                    5 \<le> length (split_on CHR ''/'' n)})) msg) 200)
       \<and> (\<forall>n \<in> set (filter (prefix (''users/'' @ fstr env user_id @ ''/documents/'')) (map fst objs)).
            n \<notin> fst ` set (the (bucket (snd (delete_embeddings env req s)))))"
proof -
  let ?pre = "''users/'' @ fstr env user_id @ ''/documents/''"
  note r = delete_embeddings_all [OF assms, of env]
  have a: "fst (delete_embeddings env req s) =
      respond (Deleted
        (card ((\<lambda>n. split_on CHR ''/'' n ! 3) `
           {n \<in> set (filter (prefix ?pre) (map fst objs)). 5 \<le> length (split_on CHR ''/'' n)}))
        (''Successfully deleted '' @
          str_nat (length (document_ids (filter (prefix ?pre) (map fst objs)) []))
          @ '' documents for user '' @ fstr env user_id)) 200"
    by (simp only: r fst_conv document_ids_count)
  have b: "the (bucket (snd (delete_embeddings env req s))) =
      filter (\<lambda>kv. \<not> prefix ?pre (fst kv)) objs"
    by (simp add: r)
  have c: "n \<notin> fst ` set (filter (\<lambda>kv. \<not> prefix ?pre (fst kv)) objs)"
    if "n \<in> set (filter (prefix ?pre) (map fst objs))" for n
    using that by auto
  show ?thesis
  proof (intro conjI ballI)
    show "\<exists>msg. fst (delete_embeddings env req s) =
        respond (Deleted
          (card ((\<lambda>n. split_on CHR ''/'' n ! 3) `
             {n \<in> set (filter (prefix ?pre) (map fst objs)). 5 \<le> length (split_on CHR ''/'' n)}))
          msg) 200"
      using a by blast
  next
    fix n assume "n \<in> set (filter (prefix ?pre) (map fst objs))"
    then show "n \<notin> fst ` set (the (bucket (snd (delete_embeddings env req s))))"
      by (simp only: b c not_False_eq_True)
  qed
qed

theorem delete_all_skips_short_keys_witness:
  "(\<exists>msg. fst (delete_embeddings sample_env (delete_request ''u'' JNull) stray_store) =
      respond (Deleted 1 msg) 200)
   \<and> ''users/u/documents/x''
       \<notin> fst ` set (the (bucket (snd (delete_embeddings sample_env (delete_request ''u'' JNull)
            stray_store))))
   \<and> ''users/u/documents/d/chunks.json''
       \<notin> fst ` set (the (bucket (snd (delete_embeddings sample_env (delete_request ''u'' JNull)
            stray_store))))
   \<and> length (split_on CHR ''/'' ''users/u/documents/x'') = 4"
proof -
  let ?objs = "[(''users/u/documents/x'', chunks1_text),
       (''users/u/documents/d/chunks.json'', chunks1_text)]"
  have pre: "method (delete_request ''u'' JNull) \<noteq> ''OPTIONS''"
    "get_json (delete_request ''u'' JNull) = JObj [(''userId'', JStr ''u''), (''documentId'', JNull)]"
    "map_of [(''userId'', JStr ''u''), (''documentId'', JNull)] ''userId'' = Some (JStr ''u'')"
    "\<not> truthy (case map_of [(''userId'', JStr ''u''), (''documentId'', JNull)] ''documentId'' of
        None \<Rightarrow> JNull | Some v \<Rightarrow> v)"
    "faults stray_store = (\<lambda>op. None)" "bucket stray_store = Some ?objs"
    "distinct (map fst ?objs)"
    by (simp_all add: delete_request_def stray_store_def)
  note r = delete_all_skips_short_keys [OF pre, of sample_env]
  have listed: "filter (prefix (''users/'' @ fstr sample_env (JStr ''u'') @ ''/documents/'')) (map fst ?objs)
      = [''users/u/documents/x'', ''users/u/documents/d/chunks.json'']"
    by (simp add: fstr_def)
  have cnt: "card ((\<lambda>n. split_on CHR ''/'' n ! 3) `
      {n \<in> set [''users/u/documents/x'', ''users/u/documents/d/chunks.json''].
         5 \<le> length (split_on CHR ''/'' n)}) = 1"
    by (simp only: doc_id_count_remdups) simp
  show ?thesis
    using r by (simp only: listed cnt) simp
qed

section \<open>Claims about Retrieve of all documents\<close>



end
